theory Spec2Isabelle
  imports Complex_Main
begin

section \<open>JavaScript numbers and array reads\<close>

text \<open>
  The dashboard script works on JavaScript numbers, which are IEEE 754 binary64 values:
  a finite number (\<open>Num\<close> of the real it stands for, \<open>Num 0\<close> being \<open>+0\<close>),
  the negative zero, the two infinities and \<open>NaN\<close>. \<open>Undefined\<close> is what reading
  an array beyond its bounds gives. The numbers of a decoded body are finite.
\<close>

datatype jsv = Num real | NegZero | PosInf | NegInf | NaN | Undefined

text \<open>\<open>xs[i]\<close>: the element at an index inside the array, \<open>undefined\<close> elsewhere.\<close>

definition elem :: "real list \<Rightarrow> int \<Rightarrow> jsv" where
  "elem xs i = (if 0 \<le> i \<and> i < int (length xs) then Num (xs ! nat i) else Undefined)"

text \<open>
  Rounding to binary64. The exponent of a number is that of its binade
  \<open>2^e \<le> |x| < 2^(e+1)\<close>, from \<open>1023\<close> down to \<open>-1022\<close>, which also serves
  the subnormal numbers below; \<open>expo_scan\<close> tries the exponents from the top.
\<close>

fun expo_scan :: "nat \<Rightarrow> real \<Rightarrow> int" where
  "expo_scan 0 x = - 1022"
| "expo_scan (Suc n) x =
     (if 2 powi (int (Suc n) - 1022) \<le> x then int (Suc n) - 1022 else expo_scan n x)"

definition expo :: "real \<Rightarrow> int" where
  "expo x = expo_scan 2045 \<bar>x\<bar>"

text \<open>The nearest integer, the even one of two that are equally near.\<close>

definition round_even :: "real \<Rightarrow> int" where
  "round_even y =
     (let f = \<lfloor>y\<rfloor>; d = y - of_int f
      in if d < 1 / 2 then f else if 1 / 2 < d then f + 1 else if even f then f else f + 1)"

text \<open>
  The binary64 value of a real result: the nearest multiple of the spacing
  \<open>2^(e - 52)\<close> of its binade (53 significant bits), ties to the even multiple; an
  infinity when that reaches \<open>2^1024\<close>; a zero with the sign of the result when it
  vanishes.
\<close>

definition fl :: "real \<Rightarrow> jsv" where
  "fl x =
     (if x = 0 then Num 0
      else
        (let q = 2 powi (expo x - 52);
             y = of_int (round_even (x / q)) * q
         in if 2 powi 1024 \<le> \<bar>y\<bar> then (if 0 < x then PosInf else NegInf)
            else if y = 0 then (if x < 0 then NegZero else Num 0)
            else Num y))"

text \<open>
  \<open>a + b\<close> on numbers: \<open>undefined\<close> converts to \<open>NaN\<close>, and \<open>NaN\<close> absorbs;
  opposite infinities give \<open>NaN\<close>; only two negative zeros add up to a negative zero;
  the sum of two finite numbers is rounded.
\<close>

fun js_add :: "jsv \<Rightarrow> jsv \<Rightarrow> jsv" where
  "js_add NaN _ = NaN"
| "js_add _ NaN = NaN"
| "js_add Undefined _ = NaN"
| "js_add _ Undefined = NaN"
| "js_add PosInf NegInf = NaN"
| "js_add NegInf PosInf = NaN"
| "js_add PosInf _ = PosInf"
| "js_add _ PosInf = PosInf"
| "js_add NegInf _ = NegInf"
| "js_add _ NegInf = NegInf"
| "js_add NegZero NegZero = NegZero"
| "js_add NegZero (Num b) = fl b"
| "js_add (Num a) NegZero = fl a"
| "js_add (Num a) (Num b) = fl (a + b)"

text \<open>
  \<open>a / n\<close> for an integer \<open>n\<close>: the quotient of two finite numbers is rounded;
  a zero divided by zero is \<open>NaN\<close>, another number divided by zero an infinity; the
  sign of a zero or an infinity follows the signs of both sides.
\<close>

fun js_div :: "jsv \<Rightarrow> int \<Rightarrow> jsv" where
  "js_div (Num a) n =
     (if n = 0 then (if a = 0 then NaN else if 0 < a then PosInf else NegInf)
      else if a = 0 then (if 0 < n then Num 0 else NegZero)
      else fl (a / real_of_int n))"
| "js_div NegZero n = (if n = 0 then NaN else if 0 < n then NegZero else Num 0)"
| "js_div PosInf n = (if 0 \<le> n then PosInf else NegInf)"
| "js_div NegInf n = (if 0 \<le> n then NegInf else PosInf)"
| "js_div NaN n = NaN"
| "js_div Undefined n = NaN"

text \<open>
  \<open>a > b\<close> and \<open>a >= b\<close>: false as soon as one side is \<open>NaN\<close> or
  \<open>undefined\<close>; the two zeros are equal.
\<close>

fun js_gt :: "jsv \<Rightarrow> jsv \<Rightarrow> bool" where
  "js_gt (Num a) (Num b) = (a > b)"
| "js_gt (Num a) NegZero = (a > 0)"
| "js_gt NegZero (Num b) = (0 > b)"
| "js_gt NaN _ = False"
| "js_gt _ NaN = False"
| "js_gt Undefined _ = False"
| "js_gt _ Undefined = False"
| "js_gt NegInf _ = False"
| "js_gt _ NegInf = True"
| "js_gt _ PosInf = False"
| "js_gt PosInf _ = True"
| "js_gt NegZero NegZero = False"

fun js_ge :: "jsv \<Rightarrow> jsv \<Rightarrow> bool" where
  "js_ge (Num a) (Num b) = (a \<ge> b)"
| "js_ge (Num a) NegZero = (a \<ge> 0)"
| "js_ge NegZero (Num b) = (0 \<ge> b)"
| "js_ge NaN _ = False"
| "js_ge _ NaN = False"
| "js_ge Undefined _ = False"
| "js_ge _ Undefined = False"
| "js_ge _ NegInf = True"
| "js_ge NegInf _ = False"
| "js_ge PosInf _ = True"
| "js_ge _ PosInf = False"
| "js_ge NegZero NegZero = True"

section \<open>Indicator engine: \<open>calculateSMA\<close>\<close>

text \<open>
  The inner loop \<open>for (let j = 0; j < period; j++) sum += data[i - j]\<close>, entered
  with the loop counter \<open>j\<close> and the running \<open>sum\<close> (here \<open>acc\<close>).
\<close>

function sma_sum :: "real list \<Rightarrow> int \<Rightarrow> int \<Rightarrow> int \<Rightarrow> jsv \<Rightarrow> jsv" where
  "sma_sum data period i j acc =
     (if j < period then sma_sum data period i (j + 1) (js_add acc (elem data (i - j)))
      else acc)"
  by pat_completeness auto
termination
  by (relation "measure (\<lambda>(data, period, i, j, acc). nat (period - j))") auto

text \<open>
  The outer loop \<open>for (let i = period - 1; i < data.length; i++)\<close>, entered with the
  loop counter \<open>i\<close> and the \<open>results\<close> pushed so far.
\<close>

function sma_loop :: "real list \<Rightarrow> int \<Rightarrow> int \<Rightarrow> jsv list \<Rightarrow> jsv list" where
  "sma_loop data period i results =
     (if i < int (length data)
      then sma_loop data period (i + 1)
             (results @ [js_div (sma_sum data period i 0 (Num 0)) period])
      else results)"
  by pat_completeness auto
termination
  by (relation "measure (\<lambda>(data, period, i, results). nat (int (length data) - i))") auto

text \<open>
  \<open>calculateSMA(data, period)\<close>. The argument \<open>data\<close> is the \<open>c\<close> property of the
  candle body: \<open>None\<close> when the property is absent (\<open>undefined\<close> or \<open>null\<close>), an
  array of numbers otherwise. An array, also the empty one, is truthy.
\<close>

definition calculateSMA :: "real list option \<Rightarrow> int \<Rightarrow> jsv list" where
  "calculateSMA data period =
     (case data of
        None \<Rightarrow> []
      | Some d \<Rightarrow> if int (length d) < period then [] else sma_loop d period (period - 1) [])"

text \<open>The arithmetic mean of the window of \<open>p\<close> prices that starts at index \<open>k\<close>.\<close>

definition window_mean :: "real list \<Rightarrow> nat \<Rightarrow> nat \<Rightarrow> real" where
  "window_mean s p k = sum_list (take p (drop k s)) / real p"

text \<open>
  What the inner loop computes for the window that starts at index \<open>k\<close>: its prices
  added to \<open>0\<close> one by one, from the last to the first, each sum rounded.
\<close>

definition window_total :: "real list \<Rightarrow> nat \<Rightarrow> nat \<Rightarrow> jsv" where
  "window_total s p k = foldl js_add (Num 0) (map Num (rev (take p (drop k s))))"

text \<open>A real that is a binary64 value: rounding leaves it as it is.\<close>

definition representable :: "real \<Rightarrow> bool" where
  "representable x = (fl x = Num x)"

text \<open>
  A window on which the loop does not round: each of its partial sums, taken from the
  last price, and its mean are binary64 values.
\<close>

definition exact_window :: "real list \<Rightarrow> nat \<Rightarrow> nat \<Rightarrow> bool" where
  "exact_window s p k =
     (let w = rev (take p (drop k s))
      in list_all (\<lambda>j. representable (sum_list (take j w))) [1..<length w + 1]
         \<and> representable (sum_list w / real p))"

text \<open>The binary64 value of the literal \<open>1e308\<close>.\<close>

definition d1e308 :: real where
  "d1e308 = 5010420900022432 * 2 ^ 971"

text \<open>The binary64 value of the literal \<open>0.1\<close>.\<close>

definition d0_1 :: real where
  "d0_1 = 3602879701896397 / 36028797018963968"

section \<open>Decoded response bodies\<close>

text \<open>
  A response body is decoded JSON: an object or, for the news endpoint, an array of
  article objects. An object is modelled by the properties the script reads, each absent
  (\<open>None\<close>, read as \<open>undefined\<close>; the script's tests \<open>!x\<close>, \<open>x || d\<close> and
  \<open>x?.f\<close> treat \<open>null\<close> alike) or present with a value of the type the API documents.
  Field \<open>p_x\<close> is the property \<open>x\<close>. Only \<open>c\<close> has two types: a number in a quote,
  an array in a candle body.
\<close>

datatype cprop = CNum real | CArr "real list"

record metric_obj =
  marketCapitalization :: "real option"
  week52High :: "real option"
  week52Low :: "real option"
  peNormalizedAnnual :: "real option"

record article =
  a_url :: "string option"
  a_headline :: "string option"
  a_datetime :: "real option"
  a_source :: "string option"

record props =
  p_name :: "string option"
  p_ticker :: "string option"
  p_logo :: "string option"
  p_finnhubIndustry :: "string option"
  p_weburl :: "string option"
  p_exchange :: "string option"
  p_c :: "cprop option"
  p_metric :: "metric_obj option"
  p_s :: "string option"
  p_t :: "real list option"
  p_o :: "real list option"
  p_h :: "real list option"
  p_l :: "real list option"
  p_v :: "real list option"
  p_rsi :: "real list option"
  p_macd :: "real list option"
  p_signal :: "real list option"
  p_macdHist :: "real list option"

datatype body = Obj props | Arr "article list"

text \<open>\<open>b.x\<close> for a body \<open>b\<close>: an array has none of the properties above.\<close>

fun rd :: "(props \<Rightarrow> 'a option) \<Rightarrow> body \<Rightarrow> 'a option" where
  "rd f (Obj p) = f p"
| "rd f (Arr as) = None"

text \<open>
  \<open>b.c\<close> as the argument \<open>data\<close> of \<open>calculateSMA\<close>: an array, or \<open>None\<close>
  for what makes it return at once (an absent property; a number, which is either
  falsy or has no \<open>length\<close>).
\<close>

fun rd_c :: "body \<Rightarrow> real list option" where
  "rd_c (Obj p) = (case p_c p of Some (CArr xs) \<Rightarrow> Some xs | _ \<Rightarrow> None)"
| "rd_c (Arr as) = None"

section \<open>Errors\<close>

datatype endpoint = Profile | Quote | Metrics | Candles | Rsi | Macd | News

fun key_name :: "endpoint \<Rightarrow> string" where
  "key_name Profile = ''profile''"
| "key_name Quote = ''quote''"
| "key_name Metrics = ''metrics''"
| "key_name Candles = ''candles''"
| "key_name Rsi = ''rsi''"
| "key_name Macd = ''macd''"
| "key_name News = ''news''"

text \<open>
  What a promise can reject with, or a statement throw: a failed request (the browser's
  message), the two errors the orchestrator throws itself, a body that is not JSON, and
  the engine's \<open>TypeError\<close> (reading a property of \<open>undefined\<close>, calling what is
  not a function).
\<close>

datatype error =
    NetworkFailure string
  | ResponseNotOk endpoint
  | BodyNotJson string
  | CandleStatusNotOk
  | TypeErr string

fun message :: "error \<Rightarrow> string" where
  "message (NetworkFailure m) = m"
| "message (ResponseNotOk k) = ''Network response for '' @ key_name k @ '' was not ok.''"
| "message (BodyNotJson m) = m"
| "message CandleStatusNotOk = ''Failed to fetch historical candle data.''"
| "message (TypeErr m) = m"

text \<open>Sequencing of computations that may throw.\<close>

fun and_then :: "error + 'a \<Rightarrow> ('a \<Rightarrow> error + 'b) \<Rightarrow> error + 'b" where
  "and_then (Inl e) f = Inl e"
| "and_then (Inr x) f = f x"

text \<open>\<open>xs.map(f)\<close> with a callback that may throw: the first throw ends the loop.\<close>

fun traverse :: "('a \<Rightarrow> error + 'b) \<Rightarrow> 'a list \<Rightarrow> error + 'b list" where
  "traverse f [] = Inr []"
| "traverse f (x # xs) =
     (case f x of
        Inl e \<Rightarrow> Inl e
      | Inr y \<Rightarrow> (case traverse f xs of Inl e \<Rightarrow> Inl e | Inr ys \<Rightarrow> Inr (y # ys)))"

text \<open>The pairs \<open>(element, index)\<close> a \<open>map\<close> callback is called with.\<close>

definition indexed :: "'a list \<Rightarrow> ('a \<times> int) list" where
  "indexed xs = zip xs (map int [0..<length xs])"

text \<open>\<open>x[i]\<close> where the array \<open>x\<close> is itself a property that may be absent.\<close>

fun get :: "real list option \<Rightarrow> int \<Rightarrow> error + jsv" where
  "get None i = Inl (TypeErr ''Cannot read properties of undefined'')"
| "get (Some xs) i = Inr (elem xs i)"

text \<open>\<open>b.c[i]\<close>: indexing a number gives \<open>undefined\<close>.\<close>

definition get_c :: "body \<Rightarrow> int \<Rightarrow> error + jsv" where
  "get_c b i =
     (case rd p_c b of
        None \<Rightarrow> Inl (TypeErr ''Cannot read properties of undefined'')
      | Some (CNum r) \<Rightarrow> Inr Undefined
      | Some (CArr xs) \<Rightarrow> Inr (elem xs i))"

section \<open>Promises\<close>

text \<open>
  A promise either never settles or settles at a tick of the event loop, fulfilled
  (\<open>Inr\<close>) or rejected (\<open>Inl\<close>). Ticks count from the call of the orchestrator.
\<close>

datatype 'a promise = Pending | Settled nat "error + 'a"

definition resolved :: "'a \<Rightarrow> 'a promise" where
  "resolved v = Settled 0 (Inr v)"

definition thrown :: "error \<Rightarrow> 'a promise" where
  "thrown e = Settled 0 (Inl e)"

text \<open>
  \<open>p.then(f)\<close>: a rejection passes through; on fulfilment the handler runs and what
  it returns (\<open>resolved\<close>), throws (\<open>thrown\<close>) or the promise it returns decides
  the result, no earlier than \<open>p\<close> itself.
\<close>

fun then_p :: "('a \<Rightarrow> 'b promise) \<Rightarrow> 'a promise \<Rightarrow> 'b promise" where
  "then_p f Pending = Pending"
| "then_p f (Settled t (Inl e)) = Settled t (Inl e)"
| "then_p f (Settled t (Inr v)) =
     (case f v of Pending \<Rightarrow> Pending | Settled u r \<Rightarrow> Settled (max t u) r)"

text \<open>
  \<open>Promise.all\<close>: rejects as soon as the first of its inputs rejects, with that
  input's reason (the earlier input at equal ticks); fulfils once every input has fulfilled,
  with the values in the order of the inputs.
\<close>

fun both :: "'a promise \<Rightarrow> 'a list promise \<Rightarrow> 'a list promise" where
  "both (Settled t (Inl e)) (Settled u (Inl e')) =
     (if u < t then Settled u (Inl e') else Settled t (Inl e))"
| "both (Settled t (Inl e)) _ = Settled t (Inl e)"
| "both _ (Settled u (Inl e')) = Settled u (Inl e')"
| "both (Settled t (Inr v)) (Settled u (Inr vs)) = Settled (max t u) (Inr (v # vs))"
| "both _ _ = Pending"

fun promise_all :: "'a promise list \<Rightarrow> 'a list promise" where
  "promise_all [] = Settled 0 (Inr [])"
| "promise_all (p # ps) = both p (promise_all ps)"

section \<open>Fetch orchestrator: \<open>fetchAllEndpoints\<close>\<close>

text \<open>
  \<open>fetch(url)\<close> gives a promise of a response; \<open>res.ok\<close> is its status flag and
  \<open>res.json()\<close> a promise of the decoded body. The network is the model's input: for
  each of the seven URLs, how its request settles.
\<close>

record response =
  res_ok :: bool
  res_json :: "body promise"

type_synonym network = "endpoint \<Rightarrow> response promise"

text \<open>The keys of \<open>endpoints\<close>, in the order \<open>Object.entries\<close> lists them.\<close>

definition endpoints :: "endpoint list" where
  "endpoints = [Profile, Quote, Metrics, Candles, Rsi, Macd, News]"

text \<open>
  One element of \<open>promises\<close>:
  \<open>fetch(url).then(res => { if (!res.ok) throw ...; return res.json(); })
     .then(data => ({ key, data }))\<close>.
\<close>

definition request :: "network \<Rightarrow> endpoint \<Rightarrow> (endpoint \<times> body) promise" where
  "request net key =
     then_p (\<lambda>data. resolved (key, data))
       (then_p (\<lambda>res. if \<not> res_ok res then thrown (ResponseNotOk key) else res_json res)
          (net key))"

type_synonym dataObject = "endpoint \<Rightarrow> body option"

text \<open>\<open>results.reduce((acc, { key, data }) => { acc[key] = data; return acc; }, {})\<close>\<close>

definition collect :: "(endpoint \<times> body) list \<Rightarrow> dataObject" where
  "collect results = foldl (\<lambda>acc (key, data). acc(key \<mapsto> data)) Map.empty results"

text \<open>The handler of \<open>Promise.all(promises).then(...)\<close>.\<close>

definition assemble :: "(endpoint \<times> body) list \<Rightarrow> dataObject promise" where
  "assemble results =
     (let dataObject = collect results in
      case dataObject Candles of
        None \<Rightarrow> thrown (TypeErr ''Cannot read properties of undefined (reading s)'')
      | Some candles \<Rightarrow>
          if rd p_s candles \<noteq> Some ''ok'' then thrown CandleStatusNotOk
          else resolved dataObject)"

definition fetchAllEndpoints :: "network \<Rightarrow> dataObject promise" where
  "fetchAllEndpoints net = then_p assemble (promise_all (map (request net) endpoints))"

section \<open>Series aligner: the point sequences of \<open>updateChartsUI\<close>\<close>

record ohlc_point =
  o_time :: jsv
  o_open :: jsv
  o_high :: jsv
  o_low :: jsv
  o_close :: jsv

record line_point =
  l_time :: jsv
  l_value :: jsv

record hist_point =
  h_time :: jsv
  h_value :: jsv
  h_color :: string

definition up_color :: string where
  "up_color = ''rgba(38, 166, 154, 0.5)''"

definition down_color :: string where
  "down_color = ''rgba(239, 83, 80, 0.5)''"

text \<open>\<open>x.t.map(f)\<close>: a \<open>TypeError\<close> when the property \<open>t\<close> is absent.\<close>

definition map_t :: "body \<Rightarrow> (real \<times> int \<Rightarrow> error + 'a) \<Rightarrow> error + 'a list" where
  "map_t b f =
     (case rd p_t b of
        None \<Rightarrow> Inl (TypeErr ''Cannot read properties of undefined (reading map)'')
      | Some ts \<Rightarrow> traverse f (indexed ts))"

definition candlestickData :: "body \<Rightarrow> error + ohlc_point list" where
  "candlestickData candles =
     map_t candles (\<lambda>(time, index).
       and_then (get (rd p_o candles) index) (\<lambda>op.
       and_then (get (rd p_h candles) index) (\<lambda>hi.
       and_then (get (rd p_l candles) index) (\<lambda>lo.
       and_then (get_c candles index) (\<lambda>cl.
         Inr \<lparr>o_time = Num time, o_open = op, o_high = hi, o_low = lo, o_close = cl\<rparr>)))))"

definition volumeData :: "body \<Rightarrow> error + hist_point list" where
  "volumeData candles =
     map_t candles (\<lambda>(time, index).
       and_then (get (rd p_v candles) index) (\<lambda>vol.
       and_then (get_c candles index) (\<lambda>cl.
       and_then (get (rd p_o candles) index) (\<lambda>op.
         Inr \<lparr>h_time = Num time, h_value = vol,
              h_color = (if js_gt cl op then up_color else down_color)\<rparr>))))"

text \<open>\<open>x.t.map((time, index) => ({ time, value: x[key][index] }))\<close>\<close>

definition linePlotData :: "(props \<Rightarrow> real list option) \<Rightarrow> body \<Rightarrow> error + line_point list" where
  "linePlotData key b =
     map_t b (\<lambda>(time, index).
       and_then (get (rd key b) index) (\<lambda>y. Inr \<lparr>l_time = Num time, l_value = y\<rparr>))"

definition rsiPlotData :: "body \<Rightarrow> error + line_point list" where
  "rsiPlotData rsi = linePlotData p_rsi rsi"

definition macdLineData :: "body \<Rightarrow> error + line_point list" where
  "macdLineData macd = linePlotData p_macd macd"

definition macdSignalData :: "body \<Rightarrow> error + line_point list" where
  "macdSignalData macd = linePlotData p_signal macd"

definition macdHistData :: "body \<Rightarrow> error + hist_point list" where
  "macdHistData macd =
     map_t macd (\<lambda>(time, index).
       and_then (get (rd p_macdHist macd) index) (\<lambda>histValue.
         Inr \<lparr>h_time = Num time, h_value = histValue,
              h_color = (if js_ge histValue (Num 0) then up_color else down_color)\<rparr>))"

text \<open>
  \<open>sma50Data.map((value, index) => ({ time: candles.t[index + 49], value }))\<close> and
  the same with \<open>199\<close> for the 200-day average.
\<close>

definition sma50PlotData :: "jsv list \<Rightarrow> body \<Rightarrow> error + line_point list" where
  "sma50PlotData sma50Data candles =
     traverse (\<lambda>(y, index).
         and_then (get (rd p_t candles) (index + 49)) (\<lambda>time. Inr \<lparr>l_time = time, l_value = y\<rparr>))
       (indexed sma50Data)"

definition sma200PlotData :: "jsv list \<Rightarrow> body \<Rightarrow> error + line_point list" where
  "sma200PlotData sma200Data candles =
     traverse (\<lambda>(y, index).
         and_then (get (rd p_t candles) (index + 199)) (\<lambda>time. Inr \<lparr>l_time = time, l_value = y\<rparr>))
       (indexed sma200Data)"

section \<open>The page: \<open>state\<close>, \<open>dom\<close> and \<open>series\<close>\<close>

text \<open>
  What a template literal writes into a container is kept as the list of the values it
  interpolates: a text, a property as it is (\<open>Shown\<close>, where an absent one prints as
  \<open>undefined\<close>), a number through \<open>toFixed(2)\<close>, or \<open>(x / 1000).toFixed(2)\<close>
  of a property \<open>x\<close> that may be absent.
\<close>

datatype cell =
    Text string
  | Shown "string option"
  | Fixed2 real
  | Fixed2Thousandth "real option"

text \<open>
  The three fields of \<open>state\<close>, the contents of the elements of \<open>dom\<close>, the data
  of the eight \<open>series\<close>, and the surroundings: dialogs shown by \<open>alert\<close>, the key
  in \<open>localStorage\<close>, the number of \<open>fitContent\<close> calls, the price lines of the RSI
  chart, the \<open>fetch\<close> calls made (ticker and endpoint), and the number of calls of
  \<open>fetchAndDisplayDashboard\<close> that are suspended at their \<open>await\<close>.
\<close>

record app =
  apiKey :: "string option"
  currentTicker :: string
  isLoading :: bool
  tickerInput :: string
  apiKeyInput :: string
  submitBtnText :: string
  submitBtnDisabled :: bool
  locked :: bool
  statusLog :: "(string \<times> string) list"
  companyName :: string
  companyTicker :: string
  companyLogo :: string
  priceChartTitle :: string
  profileContainer :: "cell list"
  metricsContainer :: "cell list"
  newsContainer :: "article list"
  candlestick :: "ohlc_point list"
  volume :: "hist_point list"
  sma50 :: "line_point list"
  sma200 :: "line_point list"
  rsi :: "line_point list"
  macdLine :: "line_point list"
  macdSignal :: "line_point list"
  macdHist :: "hist_point list"
  alerts :: "string list"
  localStorage :: "string option"
  fitted :: nat
  priceLines :: "(real \<times> string) list"
  issued :: "(string \<times> endpoint) list"
  awaiting :: nat

text \<open>\<open>!x\<close> for a string that may be \<open>null\<close>: the empty string is falsy too.\<close>

definition falsy :: "string option \<Rightarrow> bool" where
  "falsy x = (case x of None \<Rightarrow> True | Some v \<Rightarrow> v = [])"

text \<open>\<open>x || d\<close> for a string property \<open>x\<close>.\<close>

definition or_else :: "string option \<Rightarrow> string \<Rightarrow> string" where
  "or_else x d = (case x of None \<Rightarrow> d | Some v \<Rightarrow> if v = [] then d else v)"

text \<open>\<open>x?.toFixed(2) || d\<close> for a number property \<open>x\<close>.\<close>

definition fixed_or :: "real option \<Rightarrow> string \<Rightarrow> cell" where
  "fixed_or x d = (case x of None \<Rightarrow> Text d | Some r \<Rightarrow> Fixed2 r)"

text \<open>\<open>toUpperCase\<close> and \<open>trim\<close>, on ASCII.\<close>

definition upper :: "char \<Rightarrow> char" where
  "upper ch =
     (case map_of (zip ''abcdefghijklmnopqrstuvwxyz'' ''ABCDEFGHIJKLMNOPQRSTUVWXYZ'') ch of
        None \<Rightarrow> ch
      | Some u \<Rightarrow> u)"

definition toUpperCase :: "string \<Rightarrow> string" where
  "toUpperCase str = map upper str"

definition is_space :: "char \<Rightarrow> bool" where
  "is_space ch = (ch \<in> set [CHR '' '', CHR 0x09, CHR 0x0A, CHR 0x0B, CHR 0x0C, CHR 0x0D])"

definition trim :: "string \<Rightarrow> string" where
  "trim str = rev (dropWhile is_space (rev (dropWhile is_space str)))"

definition logStatus :: "string \<Rightarrow> string \<Rightarrow> app \<Rightarrow> app" where
  "logStatus msg kind a = a\<lparr>statusLog := (msg, kind) # statusLog a\<rparr>"

definition setUiLoading :: "bool \<Rightarrow> app \<Rightarrow> app" where
  "setUiLoading loading a =
     a\<lparr>isLoading := loading,
       submitBtnText := (if loading then ''Loading...'' else ''Load Data''),
       submitBtnDisabled := loading\<rparr>"

definition toggleDashboardLock :: "bool \<Rightarrow> app \<Rightarrow> app" where
  "toggleDashboardLock isLocked a = a\<lparr>locked := isLocked\<rparr>"

definition alert :: "string \<Rightarrow> app \<Rightarrow> app" where
  "alert msg a = a\<lparr>alerts := alerts a @ [msg]\<rparr>"

definition setupRsiChartLines :: "app \<Rightarrow> app" where
  "setupRsiChartLines a = a\<lparr>priceLines := priceLines a @ [(70, ''Overbought''), (30, ''Oversold'')]\<rparr>"

section \<open>The UI update functions\<close>

text \<open>
  A statement sequence that may throw part-way: the error thrown, if any, and the page
  as the statements before the throw left it.
\<close>

type_synonym stage = "app \<Rightarrow> error option \<times> app"

definition seq :: "stage \<Rightarrow> stage \<Rightarrow> stage" where
  "seq f g a = (case f a of (Some e, a') \<Rightarrow> (Some e, a') | (None, a') \<Rightarrow> g a')"

text \<open>\<open>x.p\<close> needs \<open>x\<close> itself: reading a property of \<open>undefined\<close> throws.\<close>

fun need :: "body option \<Rightarrow> error + body" where
  "need None = Inl (TypeErr ''Cannot read properties of undefined'')"
| "need (Some b) = Inr b"

definition updateProfileUI :: "body option \<Rightarrow> body option \<Rightarrow> stage" where
  "updateProfileUI profile quote a =
     (case profile of
        None \<Rightarrow> (Some (TypeErr ''Cannot read properties of undefined (reading name)''), a)
      | Some pr \<Rightarrow>
          (None,
           a\<lparr>companyName := or_else (rd p_name pr) ''Company Name'',
             companyTicker := or_else (rd p_ticker pr) ''TICKER'',
             companyLogo := or_else (rd p_logo pr) [],
             priceChartTitle := or_else (rd p_name pr) (currentTicker a) @ '' Daily Chart'',
             profileContainer :=
               [Text (or_else (rd p_finnhubIndustry pr) ''N/A''),
                Shown (rd p_weburl pr),
                Text (or_else (rd p_weburl pr) ''N/A''),
                Text (or_else (rd p_exchange pr) ''N/A'')]\<rparr>))"

text \<open>\<open>quoteData.c?.toFixed(2) || '0.00'\<close>: an array has no \<open>toFixed\<close> to call.\<close>

definition price_cell :: "body option \<Rightarrow> error + cell" where
  "price_cell quoteData =
     and_then (need quoteData) (\<lambda>q.
       case rd p_c q of
         None \<Rightarrow> Inr (Text ''0.00'')
       | Some (CNum r) \<Rightarrow> Inr (Fixed2 r)
       | Some (CArr xs) \<Rightarrow> Inl (TypeErr ''toFixed is not a function''))"

text \<open>
  The values the template of \<open>updateMetricsUI\<close> interpolates, in the order it
  evaluates them, after \<open>const metrics = metricsData.metric\<close>.
\<close>

definition metricsCells :: "body option \<Rightarrow> body option \<Rightarrow> error + cell list" where
  "metricsCells metricsData quoteData =
     and_then (need metricsData) (\<lambda>md.
     and_then (price_cell quoteData) (\<lambda>price.
     and_then (case rd p_metric md of
                 None \<Rightarrow> Inl (TypeErr ''Cannot read properties of undefined'')
               | Some m \<Rightarrow> Inr m) (\<lambda>metrics.
       Inr [price,
            Fixed2Thousandth (marketCapitalization metrics),
            fixed_or (week52High metrics) ''0.00'',
            fixed_or (week52Low metrics) ''0.00'',
            fixed_or (peNormalizedAnnual metrics) ''N/A''])))"

definition updateMetricsUI :: "body option \<Rightarrow> body option \<Rightarrow> stage" where
  "updateMetricsUI metricsData quoteData a =
     (case metricsCells metricsData quoteData of
        Inl e \<Rightarrow> (Some e, a)
      | Inr cells \<Rightarrow> (None, a\<lparr>metricsContainer := cells\<rparr>))"

text \<open>\<open>news.slice(0, 5).map(...)\<close>: only an array has \<open>slice\<close> and \<open>map\<close>.\<close>

definition updateNewsUI :: "body option \<Rightarrow> stage" where
  "updateNewsUI news a =
     (case news of
        None \<Rightarrow> (Some (TypeErr ''Cannot read properties of undefined (reading slice)''), a)
      | Some (Obj p) \<Rightarrow> (Some (TypeErr ''news.slice is not a function''), a)
      | Some (Arr articles) \<Rightarrow> (None, a\<lparr>newsContainer := take 5 articles\<rparr>))"

text \<open>
  \<open>updateChartsUI\<close> first builds the six point sequences of the candle, RSI and MACD
  bodies, then hands them to \<open>setData\<close>, then builds and sets the two SMA sequences and
  calls \<open>fitContent\<close> on the three charts.
\<close>

definition chartData ::
  "dataObject \<Rightarrow>
   error + (ohlc_point list \<times> hist_point list \<times> line_point list \<times> line_point list
            \<times> line_point list \<times> hist_point list)" where
  "chartData data =
     and_then (need (data Candles)) (\<lambda>candles.
     and_then (candlestickData candles) (\<lambda>cd.
     and_then (volumeData candles) (\<lambda>vd.
     and_then (need (data Rsi)) (\<lambda>r.
     and_then (rsiPlotData r) (\<lambda>rp.
     and_then (need (data Macd)) (\<lambda>m.
     and_then (macdLineData m) (\<lambda>ml.
     and_then (macdSignalData m) (\<lambda>ms.
     and_then (macdHistData m) (\<lambda>mh.
       Inr (cd, vd, rp, ml, ms, mh))))))))))"

definition smaData ::
  "dataObject \<Rightarrow> jsv list \<Rightarrow> jsv list \<Rightarrow> error + (line_point list \<times> line_point list)" where
  "smaData data sma50Data sma200Data =
     and_then (need (data Candles)) (\<lambda>candles.
     and_then (sma50PlotData sma50Data candles) (\<lambda>p50.
     and_then (sma200PlotData sma200Data candles) (\<lambda>p200.
       Inr (p50, p200))))"

definition updateChartsUI :: "dataObject \<Rightarrow> jsv list \<Rightarrow> jsv list \<Rightarrow> stage" where
  "updateChartsUI data sma50Data sma200Data a =
     (case chartData data of
        Inl e \<Rightarrow> (Some e, a)
      | Inr (cd, vd, rp, ml, ms, mh) \<Rightarrow>
          (let a1 = a\<lparr>candlestick := cd, volume := vd, rsi := rp,
                      macdLine := ml, macdSignal := ms, macdHist := mh\<rparr>
           in case smaData data sma50Data sma200Data of
                Inl e \<Rightarrow> (Some e, a1)
              | Inr (p50, p200) \<Rightarrow>
                  (None, a1\<lparr>sma50 := p50, sma200 := p200, fitted := fitted a1 + 3\<rparr>)))"

section \<open>Dashboard coordinator\<close>

text \<open>
  \<open>fetchAndDisplayDashboard\<close> is an \<open>async\<close> function with one \<open>await\<close>. Its
  first part runs when it is called, up to the call of \<open>fetchAllEndpoints\<close>, which
  issues the seven requests; there it is suspended. Its second part, \<open>resume\<close>, runs
  when the awaited promise settles: the rest of the \<open>try\<close> block on fulfilment, the
  \<open>catch\<close> block on a rejection or a throw, and \<open>finally\<close>.
\<close>

definition fetchAndDisplayDashboard :: "app \<Rightarrow> app" where
  "fetchAndDisplayDashboard a =
     (if isLoading a \<or> falsy (apiKey a) then
        (if falsy (apiKey a) then alert ''Please save a valid API key before loading data.'' a
         else a)
      else
        (let a1 = setUiLoading True a;
             a2 = a1\<lparr>currentTicker := toUpperCase (tickerInput a1)\<rparr>;
             a3 = logStatus (''Fetching all data for '' @ currentTicker a2 @ ''...'') ''info'' a2
         in a3\<lparr>issued := issued a3 @ map (\<lambda>key. (currentTicker a3, key)) endpoints,
               awaiting := awaiting a3 + 1\<rparr>))"

text \<open>The statements of the \<open>try\<close> block after the \<open>await\<close>.\<close>

definition process :: "dataObject \<Rightarrow> stage" where
  "process data =
     seq (\<lambda>a. (None, logStatus ''All data received. Processing...'' ''info'' a))
    (seq (updateProfileUI (data Profile) (data Quote))
    (seq (updateMetricsUI (data Metrics) (data Quote))
    (seq (updateNewsUI (data News))
    (seq (\<lambda>a. case data Candles of
                 None \<Rightarrow> (Some (TypeErr ''Cannot read properties of undefined (reading c)''), a)
               | Some candles \<Rightarrow>
                   updateChartsUI data (calculateSMA (rd_c candles) 50)
                     (calculateSMA (rd_c candles) 200) a)
         (\<lambda>a. (None, logStatus (''Dashboard updated for '' @ currentTicker a @ ''.'') ''success'' a))))))"

text \<open>The \<open>try\<close> block from the \<open>await\<close> on, given what the awaited promise settled with.\<close>

definition attempt :: "error + dataObject \<Rightarrow> stage" where
  "attempt r a = (case r of Inl e \<Rightarrow> (Some e, a) | Inr data \<Rightarrow> process data a)"

definition resume :: "error + dataObject \<Rightarrow> app \<Rightarrow> app" where
  "resume r a =
     (case attempt r a of
        (Some e, a') \<Rightarrow>
          setUiLoading False
            (alert (''Failed to load dashboard: '' @ message e)
               (logStatus (''Error: '' @ message e) ''error'' a'))
      | (None, a') \<Rightarrow> setUiLoading False a')"

definition handleApiKey :: "app \<Rightarrow> app" where
  "handleApiKey a =
     (case localStorage a of
        Some storedKey \<Rightarrow>
          if storedKey = [] then
            toggleDashboardLock True
              (logStatus ''API Key not found. Please enter a key to begin.'' ''info'' a)
          else
            fetchAndDisplayDashboard
              (toggleDashboardLock False
                 (logStatus ''API Key found in browser memory.'' ''success''
                    (a\<lparr>apiKey := Some storedKey, apiKeyInput := storedKey\<rparr>)))
      | None \<Rightarrow>
          toggleDashboardLock True
            (logStatus ''API Key not found. Please enter a key to begin.'' ''info'' a))"

definition handleKeySubmission :: "app \<Rightarrow> app" where
  "handleKeySubmission a =
     (let userKey = trim (apiKeyInput a) in
      if userKey \<noteq> [] then
        fetchAndDisplayDashboard
          (toggleDashboardLock False
             (logStatus ''API Key saved successfully.'' ''success''
                (a\<lparr>apiKey := Some userKey, localStorage := Some userKey\<rparr>)))
      else
        alert ''API Key field cannot be empty.''
          (logStatus ''Please enter a valid API key.'' ''error'' a))"

text \<open>
  The script declares \<open>initialize\<close> twice; the later declaration is the one that
  runs. \<open>setupEventListeners\<close> registers the two click handlers, which are the
  events \<open>LoadClicked\<close> and \<open>SaveKeyClicked\<close> below.
\<close>

definition initialize :: "app \<Rightarrow> app" where
  "initialize a =
     handleApiKey
       (setupRsiChartLines
          (logStatus ''Application initializing. Please provide an API key.'' ''info'' a))"

text \<open>
  Loading the page: the script's top level sets \<open>state\<close> and creates the charts and
  their empty series, then \<open>DOMContentLoaded\<close> calls \<open>initialize\<close>. The argument is
  the page as the document and the browser's storage give it.
\<close>

definition page_load :: "app \<Rightarrow> app" where
  "page_load page =
     initialize
       (page\<lparr>apiKey := None, currentTicker := ''AAPL'', isLoading := False,
             candlestick := [], volume := [], sma50 := [], sma200 := [], rsi := [],
             macdLine := [], macdSignal := [], macdHist := [],
             fitted := 0, priceLines := [], issued := [], awaiting := 0\<rparr>)"

text \<open>
  What happens to a loaded page: a click on either button, typing into either input,
  and the settling of the promise a suspended call awaits, where the network answered
  the call's seven requests as \<open>net\<close>. (A promise that never settles resumes nothing.)
\<close>

datatype event =
    LoadClicked
  | SaveKeyClicked
  | TickerTyped string
  | ApiKeyTyped string
  | FetchSettled network

fun step :: "event \<Rightarrow> app \<Rightarrow> app" where
  "step LoadClicked a = fetchAndDisplayDashboard a"
| "step SaveKeyClicked a = handleKeySubmission a"
| "step (TickerTyped str) a = a\<lparr>tickerInput := str\<rparr>"
| "step (ApiKeyTyped str) a = a\<lparr>apiKeyInput := str\<rparr>"
| "step (FetchSettled net) a =
     (if awaiting a = 0 then a
      else case fetchAllEndpoints net of
             Pending \<Rightarrow> a
           | Settled t r \<Rightarrow> (resume r a)\<lparr>awaiting := awaiting a - 1\<rparr>)"

fun run :: "event list \<Rightarrow> app \<Rightarrow> app" where
  "run [] a = a"
| "run (ev # evs) a = run evs (step ev a)"


section \<open>Observations on promises, requests and the page\<close>

fun rejected :: "'a promise \<Rightarrow> bool" where
  "rejected (Settled t (Inl e)) = True"
| "rejected _ = False"

text \<open>
  A request fails when \<open>fetch\<close> rejects, when the response's status is not a success,
  or when its body does not decode.
\<close>

fun failed :: "response promise \<Rightarrow> bool" where
  "failed (Settled t (Inl e)) = True"
| "failed (Settled t (Inr res)) = (\<not> res_ok res \<or> rejected (res_json res))"
| "failed Pending = False"

text \<open>The decoded body of a request that succeeds.\<close>

fun body_of :: "response promise \<Rightarrow> body option" where
  "body_of (Settled t (Inr res)) =
     (if res_ok res then (case res_json res of Settled u (Inr b) \<Rightarrow> Some b | _ \<Rightarrow> None) else None)"
| "body_of _ = None"

text \<open>The fields the coordinator guards a cycle with.\<close>

definition control :: "app \<Rightarrow> string option \<times> bool \<times> nat \<times> (string \<times> endpoint) list" where
  "control a = (apiKey a, isLoading a, awaiting a, issued a)"

text \<open>
  The loading flag is set exactly while one call is suspended, and only with a key saved.
\<close>

definition guarded :: "app \<Rightarrow> bool" where
  "guarded a =
     (awaiting a = (if isLoading a then 1 else 0) \<and> (isLoading a \<longrightarrow> \<not> falsy (apiKey a)))"

section \<open>Sample inputs\<close>

text \<open>The object \<open>{}\<close>.\<close>

definition no_props :: props where
  "no_props = \<lparr>p_name = None, p_ticker = None, p_logo = None, p_finnhubIndustry = None,
     p_weburl = None, p_exchange = None, p_c = None, p_metric = None, p_s = None, p_t = None,
     p_o = None, p_h = None, p_l = None, p_v = None, p_rsi = None, p_macd = None,
     p_signal = None, p_macdHist = None\<rparr>"

text \<open>A document with empty sections, \<open>aapl\<close> typed as ticker and a key in storage.\<close>

definition blank_page :: app where
  "blank_page = \<lparr>apiKey = None, currentTicker = [], isLoading = False, tickerInput = ''aapl'',
     apiKeyInput = [], submitBtnText = ''Load Data'', submitBtnDisabled = False, locked = False,
     statusLog = [], companyName = [], companyTicker = [], companyLogo = [],
     priceChartTitle = [], profileContainer = [], metricsContainer = [], newsContainer = [],
     candlestick = [], volume = [], sma50 = [], sma200 = [], rsi = [], macdLine = [],
     macdSignal = [], macdHist = [], alerts = [], localStorage = Some ''key'', fitted = 0,
     priceLines = [], issued = [], awaiting = 0\<rparr>"

text \<open>
  Seven bodies for a ticker with three daily bars, for which the indicator endpoints
  answer with the status \<open>no_data\<close> and no arrays.
\<close>

fun sample_body :: "endpoint \<Rightarrow> body" where
  "sample_body Profile = Obj (no_props\<lparr>p_name := Some ''Apple Inc'', p_ticker := Some ''AAPL''\<rparr>)"
| "sample_body Quote = Obj (no_props\<lparr>p_c := Some (CNum 150)\<rparr>)"
| "sample_body Metrics =
     Obj (no_props\<lparr>p_metric := Some \<lparr>marketCapitalization = Some 2500000,
       week52High = Some 180, week52Low = Some 120, peNormalizedAnnual = None\<rparr>\<rparr>)"
| "sample_body Candles =
     Obj (no_props\<lparr>p_s := Some ''ok'', p_t := Some [100, 200, 300],
       p_o := Some [10, 20, 30], p_h := Some [12, 22, 32], p_l := Some [9, 19, 29],
       p_v := Some [1000, 2000, 3000], p_c := Some (CArr [11, 20, 29])\<rparr>)"
| "sample_body Rsi = Obj (no_props\<lparr>p_s := Some ''no_data''\<rparr>)"
| "sample_body Macd = Obj (no_props\<lparr>p_s := Some ''no_data''\<rparr>)"
| "sample_body News = Arr []"

text \<open>The same, with indicator arrays for the three bars.\<close>

fun full_body :: "endpoint \<Rightarrow> body" where
  "full_body Rsi = Obj (no_props\<lparr>p_s := Some ''ok'', p_t := Some [100, 200, 300],
       p_rsi := Some [40, 50, 60]\<rparr>)"
| "full_body Macd = Obj (no_props\<lparr>p_s := Some ''ok'', p_t := Some [100, 200, 300],
       p_macd := Some [1, 0, -1], p_signal := Some [0, 0, 0], p_macdHist := Some [1, 0, -1]\<rparr>)"
| "full_body key = sample_body key"

text \<open>The same as \<open>sample_body\<close>, with a candle body that reports no data.\<close>

definition stale_body :: "endpoint \<Rightarrow> body" where
  "stale_body key = (if key = Candles then Obj (no_props\<lparr>p_s := Some ''no_data''\<rparr>) else sample_body key)"

text \<open>A network on which every request succeeds: headers at tick 1, the body at tick 2.\<close>

definition answers :: "(endpoint \<Rightarrow> body) \<Rightarrow> network" where
  "answers bodies key =
     Settled 1 (Inr \<lparr>res_ok = True, res_json = Settled 2 (Inr (bodies key))\<rparr>)"

text \<open>
  A network on which the profile request fails at tick 1 and the six others succeed,
  their bodies arriving at tick 6.
\<close>

definition early_failure :: network where
  "early_failure key =
     (if key = Profile then Settled 1 (Inl (NetworkFailure ''Failed to fetch''))
      else Settled 5 (Inr \<lparr>res_ok = True, res_json = Settled 6 (Inr (sample_body key))\<rparr>))"

text \<open>The \<open>dataObject\<close> with the body \<open>bodies key\<close> under every key.\<close>

definition data_of :: "(endpoint \<Rightarrow> body) \<Rightarrow> dataObject" where
  "data_of bodies key = Some (bodies key)"

text \<open>A candle body with 201 bars, stamped \<open>0\<close> to \<open>200\<close>.\<close>

definition long_candles :: body where
  "long_candles = Obj (no_props\<lparr>p_s := Some ''ok'', p_t := Some (map real [0..<201])\<rparr>)"

section \<open>Properties of \<open>calculateSMA\<close>\<close>

text \<open>The exponent found by the scan is that of the binade.\<close>

lemma two_powi_less_imp: "(2::real) powi a < 2 powi b \<Longrightarrow> a < b"
proof (rule ccontr)
  assume l: "(2::real) powi a < 2 powi b" and "\<not> a < b"
  then have "b \<le> a" by simp
  then have "(2::real) powi b \<le> 2 powi a" by (intro power_int_increasing) simp_all
  with l show False by simp
qed

lemma expo_scan_eq:
  "e \<le> int n - 1022 \<Longrightarrow> - 1022 \<le> e \<Longrightarrow> 2 powi e \<le> x \<Longrightarrow> x < 2 powi (e + 1) \<Longrightarrow>
   expo_scan n x = e"
proof (induction n)
  case 0
  then show ?case by simp
next
  case (Suc n)
  show ?case
  proof (cases "2 powi (int (Suc n) - 1022) \<le> x")
    case True
    with Suc.prems(4) have "(2::real) powi (int (Suc n) - 1022) < 2 powi (e + 1)" by simp
    then have "int (Suc n) - 1022 < e + 1" by (rule two_powi_less_imp)
    with Suc.prems(1) have "int (Suc n) - 1022 = e" by simp
    with True show ?thesis by simp
  next
    case False
    with Suc.prems(3) have "e \<noteq> int (Suc n) - 1022" by auto
    with Suc.prems(1) have "e \<le> int n - 1022" by simp
    from Suc.IH[OF this Suc.prems(2,3,4)] False show ?thesis by simp
  qed
qed

lemma expo_eq:
  "2 powi e \<le> \<bar>x\<bar> \<Longrightarrow> \<bar>x\<bar> < 2 powi (e + 1) \<Longrightarrow> - 1022 \<le> e \<Longrightarrow> e \<le> 1023 \<Longrightarrow> expo x = e"
  unfolding expo_def by (rule expo_scan_eq) simp_all

lemma expo_top: "2 powi 1023 \<le> \<bar>x\<bar> \<Longrightarrow> expo x = 1023"
proof -
  assume a: "2 powi 1023 \<le> \<bar>x\<bar>"
  have "expo_scan (Suc 2044) \<bar>x\<bar> = 1023"
    using a by (simp only: expo_scan.simps) simp
  then show ?thesis by (simp add: expo_def)
qed

text \<open>Rounding a number of a known binade, and a number that overflows.\<close>

lemma fl_in_binade:
  assumes "2 powi e \<le> \<bar>x\<bar>" "\<bar>x\<bar> < 2 powi (e + 1)" "- 1022 \<le> e" "e \<le> 1023"
    and "round_even (x / 2 powi (e - 52)) = m" and "y = of_int m * 2 powi (e - 52)"
    and "\<bar>y\<bar> < 2 powi 1024" and "y \<noteq> 0"
  shows "fl x = Num y"
proof -
  have e: "expo x = e" using assms(1-4) by (rule expo_eq)
  have "x \<noteq> 0" using assms(1) zero_less_power_int[of "2::real" e] by linarith
  then show ?thesis using e assms(5-8) by (simp add: fl_def Let_def)
qed

lemma fl_overflow:
  assumes "2 powi 1023 \<le> \<bar>x\<bar>" and "round_even (x / 2 powi 971) = m"
    and "2 powi 1024 \<le> \<bar>of_int m * (2::real) powi 971\<bar>"
  shows "fl x = (if 0 < x then PosInf else NegInf)"
proof -
  have e: "expo x = 1023" using assms(1) by (rule expo_top)
  have "x \<noteq> 0" using assms(1) zero_less_power_int[of "2::real" 1023] by linarith
  then show ?thesis using e assms(2,3) by (simp add: fl_def Let_def)
qed

lemma fl_zero: "fl 0 = Num 0"
  by (simp add: fl_def)

lemma round_even_of_int: "round_even (of_int m) = m"
  by (simp add: round_even_def)

lemma representableI:
  assumes "2 powi e \<le> \<bar>x\<bar>" "\<bar>x\<bar> < 2 powi (e + 1)" "- 1022 \<le> e" "e \<le> 1023"
    and "x = of_int m * 2 powi (e - 52)"
  shows "representable x"
  unfolding representable_def
proof (rule fl_in_binade[OF assms(1-4), of m])
  have q: "(2::real) powi (e - 52) \<noteq> 0" by simp
  have "x / 2 powi (e - 52) = of_int m" using assms(5) q by simp
  then show "round_even (x / 2 powi (e - 52)) = m" by (simp add: round_even_of_int)
  show "x = of_int m * 2 powi (e - 52)" by (rule assms(5))
  have "(2::real) powi (e + 1) \<le> 2 powi 1024" using assms(4) by (intro power_int_increasing) simp_all
  with assms(2) show "\<bar>x\<bar> < 2 powi 1024" by simp
  show "x \<noteq> 0" using assms(1) zero_less_power_int[of "2::real" e] by linarith
qed

lemma sma_sum_fold:
  "0 \<le> j \<Longrightarrow> j \<le> period \<Longrightarrow> period - 1 \<le> i \<Longrightarrow> i < int (length d) \<Longrightarrow>
   sma_sum d period i j acc =
     foldl js_add acc (map (\<lambda>m. Num (d ! (nat i - m))) [nat j..<nat period])"
proof (induction "nat (period - j)" arbitrary: j acc)
  case 0
  then have "j = period" by simp
  then show ?case by simp
next
  case (Suc n)
  then have lt: "j < period" by linarith
  have n: "n = nat (period - (j + 1))" using Suc.hyps(2) by linarith
  have rd: "elem d (i - j) = Num (d ! (nat i - nat j))"
    using Suc.prems lt by (simp add: elem_def nat_diff_distrib)
  have up: "[nat j..<nat period] = nat j # [nat (j + 1)..<nat period]"
  proof -
    have "nat j < nat period" using lt Suc.prems by linarith
    moreover have "nat (j + 1) = Suc (nat j)" using Suc.prems by linarith
    ultimately show ?thesis by (simp add: upt_conv_Cons)
  qed
  have "sma_sum d period i j acc
      = sma_sum d period i (j + 1) (js_add acc (Num (d ! (nat i - nat j))))"
    using lt rd by simp
  also have "\<dots> = foldl js_add (js_add acc (Num (d ! (nat i - nat j))))
       (map (\<lambda>m. Num (d ! (nat i - m))) [nat (j + 1)..<nat period])"
    using Suc.hyps(1)[OF n] Suc.prems lt by simp
  also have "\<dots> = foldl js_add acc (map (\<lambda>m. Num (d ! (nat i - m))) [nat j..<nat period])"
    by (simp add: up)
  finally show ?case .
qed

lemma window_rev:
  assumes "p \<le> Suc i" "i < length d"
  shows "map (\<lambda>m. d ! (i - m)) [0..<p] = rev (take p (drop (Suc i - p) d))"
proof (rule nth_equalityI)
  show "length (map (\<lambda>m. d ! (i - m)) [0..<p]) = length (rev (take p (drop (Suc i - p) d)))"
    using assms by simp
next
  fix m assume "m < length (map (\<lambda>m. d ! (i - m)) [0..<p])"
  then have m: "m < p" by simp
  have "rev (take p (drop (Suc i - p) d)) ! m = take p (drop (Suc i - p) d) ! (p - Suc m)"
    using m assms by (simp add: rev_nth)
  also have "\<dots> = d ! (Suc i - p + (p - Suc m))" using m assms by simp
  also have "Suc i - p + (p - Suc m) = i - m" using m assms by simp
  finally show "map (\<lambda>m. d ! (i - m)) [0..<p] ! m = rev (take p (drop (Suc i - p) d)) ! m"
    using m by simp
qed

lemma sma_sum_window:
  assumes "1 \<le> period" "period - 1 \<le> i" "i < int (length d)"
  shows "sma_sum d period i 0 (Num 0) = window_total d (nat period) (nat (i + 1 - period))"
proof -
  have k: "Suc (nat i) - nat period = nat (i + 1 - period)" using assms by linarith
  have "map (\<lambda>m. Num (d ! (nat i - m))) [0..<nat period]
      = map Num (map (\<lambda>m. d ! (nat i - m)) [0..<nat period])" by simp
  also have "\<dots> = map Num (rev (take (nat period) (drop (Suc (nat i) - nat period) d)))"
    using assms by (subst window_rev) simp_all
  finally show ?thesis
    using sma_sum_fold[of 0 period i d "Num 0"] assms k by (simp add: window_total_def)
qed

lemma sma_loop_in_range:
  "1 \<le> period \<Longrightarrow> period - 1 \<le> i \<Longrightarrow> i \<le> int (length d) \<Longrightarrow>
   sma_loop d period i acc =
     acc @ map (\<lambda>k. js_div (window_total d (nat period) k) period)
             [nat (i + 1 - period)..<Suc (length d) - nat period]"
proof (induction "nat (int (length d) - i)" arbitrary: i acc)
  case 0
  then have "i = int (length d)" by simp
  moreover have "nat (int (length d) + 1 - period) = Suc (length d) - nat period"
    using 0 by linarith
  ultimately show ?case by simp
next
  case (Suc n)
  then have lt: "i < int (length d)" by linarith
  have n: "n = nat (int (length d) - (i + 1))" using Suc.hyps(2) by linarith
  have s: "sma_sum d period i 0 (Num 0) = window_total d (nat period) (nat (i + 1 - period))"
    using Suc.prems lt by (intro sma_sum_window) simp_all
  have up: "[nat (i + 1 - period)..<Suc (length d) - nat period]
      = nat (i + 1 - period) # [nat (i + 1 + 1 - period)..<Suc (length d) - nat period]"
  proof -
    have "nat (i + 1 - period) < Suc (length d) - nat period" using Suc.prems lt by linarith
    moreover have "nat (i + 1 + 1 - period) = Suc (nat (i + 1 - period))"
      using Suc.prems by linarith
    ultimately show ?thesis by (simp add: upt_conv_Cons)
  qed
  have "sma_loop d period i acc
      = sma_loop d period (i + 1) (acc @ [js_div (sma_sum d period i 0 (Num 0)) period])"
    using lt by simp
  also have "\<dots> = (acc @ [js_div (sma_sum d period i 0 (Num 0)) period])
       @ map (\<lambda>k. js_div (window_total d (nat period) k) period)
           [nat (i + 1 + 1 - period)..<Suc (length d) - nat period]"
    using Suc.hyps(1)[OF n] Suc.prems lt by simp
  finally show ?case using s up by simp
qed

lemma calculateSMA_map:
  assumes "1 \<le> period" and "period \<le> int (length s)"
  shows "calculateSMA (Some s) period =
           map (\<lambda>k. js_div (window_total s (nat period) k) period)
             [0..<length s - nat period + 1]"
proof -
  have "Suc (length s) - nat period = length s - nat period + 1" using assms by linarith
  then show ?thesis
    using assms sma_loop_in_range[of period "period - 1" s "[]"]
    by (simp add: calculateSMA_def)
qed

lemma foldl_exact:
  "\<forall>j. 1 \<le> j \<and> j \<le> length xs \<longrightarrow> representable (a + sum_list (take j xs)) \<Longrightarrow>
   foldl js_add (Num a) (map Num xs) = Num (a + sum_list xs)"
proof (induction xs arbitrary: a)
  case Nil
  then show ?case by simp
next
  case (Cons x xs)
  from Cons.prems[rule_format, of 1] have r: "fl (a + x) = Num (a + x)"
    by (simp add: representable_def)
  have "\<forall>j. 1 \<le> j \<and> j \<le> length xs \<longrightarrow> representable (a + x + sum_list (take j xs))"
  proof (intro allI impI)
    fix j assume "1 \<le> j \<and> j \<le> length xs"
    then show "representable (a + x + sum_list (take j xs))"
      using Cons.prems[rule_format, of "Suc j"] by (simp add: add.assoc)
  qed
  from Cons.IH[OF this] r show ?case by (simp add: add.assoc)
qed

lemma exact_window_mean:
  assumes "exact_window s p k" and "0 < p"
  shows "js_div (window_total s p k) (int p) = Num (window_mean s p k)"
proof -
  let ?w = "rev (take p (drop k s))"
  from assms(1) have
    a: "\<forall>j. 1 \<le> j \<and> j \<le> length ?w \<longrightarrow> representable (0 + sum_list (take j ?w))"
    and q: "representable (sum_list ?w / real p)"
    by (auto simp: exact_window_def Let_def list_all_iff)
  from foldl_exact[OF a] have t: "window_total s p k = Num (sum_list ?w)"
    by (simp add: window_total_def)
  have m: "sum_list ?w / real p = window_mean s p k"
    by (simp add: window_mean_def sum_list_rev)
  show ?thesis
  proof (cases "sum_list ?w = 0")
    case True
    then show ?thesis using t m assms(2) by simp
  next
    case False
    then show ?thesis using t m q assms(2) by (simp add: representable_def)
  qed
qed

lemma sma_sum_period_zero: "sma_sum d 0 i 0 (Num 0) = Num 0"
  by simp

lemma small_representable:
  "representable 1" "representable 2" "representable 3" "representable 4" "representable 5"
  "representable 6" "representable 9" "representable (3 / 2)" "representable (5 / 2)"
  "representable (9 / 2)"
proof -
  show "representable 1" by (rule representableI[where e = 0 and m = "2 ^ 52"]) simp_all
  show "representable 2" by (rule representableI[where e = 1 and m = "2 ^ 52"]) simp_all
  show "representable 3" by (rule representableI[where e = 1 and m = "3 * 2 ^ 51"]) simp_all
  show "representable 4" by (rule representableI[where e = 2 and m = "2 ^ 52"]) simp_all
  show "representable 5" by (rule representableI[where e = 2 and m = "5 * 2 ^ 50"]) simp_all
  show "representable 6" by (rule representableI[where e = 2 and m = "6 * 2 ^ 50"]) simp_all
  show "representable 9" by (rule representableI[where e = 3 and m = "9 * 2 ^ 49"]) simp_all
  show "representable (3 / 2)" by (rule representableI[where e = 0 and m = "3 * 2 ^ 51"]) simp_all
  show "representable (5 / 2)" by (rule representableI[where e = 1 and m = "5 * 2 ^ 50"]) simp_all
  show "representable (9 / 2)" by (rule representableI[where e = 2 and m = "9 * 2 ^ 49"]) simp_all
qed

lemma fl_four_thirds: "fl (4 / 3) = Num (6004799503160661 / 4503599627370496)"
  by (rule fl_in_binade[where e = 0 and m = 6004799503160661]) (simp_all add: round_even_def)

lemma fl_1e16:
  "fl (- 10000000000000000) = Num (- 10000000000000000)"
  "fl (- 9999999999999999) = Num (- 10000000000000000)"
  by (rule fl_in_binade[where e = 53 and m = "- 5000000000000000"]; simp add: round_even_def)+

lemma representable_1e16:
  "representable 10000000000000000" "representable (- 10000000000000000)"
  by (rule representableI[where e = 53 and m = "5000000000000000"]; simp)
     (rule representableI[where e = 53 and m = "- 5000000000000000"]; simp)

lemma representable_d1e308: "representable d1e308"
  by (rule representableI[where e = 1023 and m = 5010420900022432]) (simp_all add: d1e308_def)

lemma fl_d1e308_twice: "fl (2 * d1e308) = PosInf"
  using fl_overflow[of "2 * d1e308" 10020841800044864]
  by (simp add: d1e308_def round_even_def)

lemma representable_d0_1: "representable d0_1"
  by (rule representableI[where e = "- 4" and m = 7205759403792794]) (simp_all add: d0_1_def)

text \<open>
  Fifty prices of \<open>0.1\<close>: the fifty rounded additions and the rounded division.
\<close>

lemma tenth_steps:
  "fl (3602879701896397 / 36028797018963968) = Num (3602879701896397 / 36028797018963968)"
  "fl (3602879701896397 / 18014398509481984) = Num (3602879701896397 / 18014398509481984)"
  "fl (10808639105689191 / 36028797018963968) = Num (1351079888211149 / 4503599627370496)"
  "fl (14411518807585589 / 36028797018963968) = Num (3602879701896397 / 9007199254740992)"
  "fl (18014398509481985 / 36028797018963968) = Num (1 / 2)"
  "fl (21617278211378381 / 36028797018963968) = Num (5404319552844595 / 9007199254740992)"
  "fl (25220157913274777 / 36028797018963968) = Num (3152519739159347 / 4503599627370496)"
  "fl (28823037615171173 / 36028797018963968) = Num (7205759403792793 / 9007199254740992)"
  "fl (32425917317067569 / 36028797018963968) = Num (2026619832316723 / 2251799813685248)"
  "fl (36028797018963965 / 36028797018963968) = Num (9007199254740991 / 9007199254740992)"
  "fl (39631676720860361 / 36028797018963968) = Num (4953959590107545 / 4503599627370496)"
  "fl (43234556422756757 / 36028797018963968) = Num (5404319552844595 / 4503599627370496)"
  "fl (46837436124653157 / 36028797018963968) = Num (5854679515581645 / 4503599627370496)"
  "fl (50440315826549557 / 36028797018963968) = Num (6305039478318695 / 4503599627370496)"
  "fl (54043195528445957 / 36028797018963968) = Num (6755399441055745 / 4503599627370496)"
  "fl (57646075230342357 / 36028797018963968) = Num (7205759403792795 / 4503599627370496)"
  "fl (61248954932238757 / 36028797018963968) = Num (7656119366529845 / 4503599627370496)"
  "fl (64851834634135157 / 36028797018963968) = Num (8106479329266895 / 4503599627370496)"
  "fl (68454714336031557 / 36028797018963968) = Num (8556839292003945 / 4503599627370496)"
  "fl (72057594037927957 / 36028797018963968) = Num (4503599627370497 / 2251799813685248)"
  "fl (75660473739824349 / 36028797018963968) = Num (2364389804369511 / 1125899906842624)"
  "fl (79263353441720749 / 36028797018963968) = Num (4953959590107547 / 2251799813685248)"
  "fl (82866233143617149 / 36028797018963968) = Num (647392446434509 / 281474976710656)"
  "fl (86469112845513549 / 36028797018963968) = Num (5404319552844597 / 2251799813685248)"
  "fl (90071992547409949 / 36028797018963968) = Num (2814749767106561 / 1125899906842624)"
  "fl (93674872249306349 / 36028797018963968) = Num (5854679515581647 / 2251799813685248)"
  "fl (97277751951202749 / 36028797018963968) = Num (1519964874237543 / 562949953421312)"
  "fl (100880631653099149 / 36028797018963968) = Num (6305039478318697 / 2251799813685248)"
  "fl (104483511354995549 / 36028797018963968) = Num (3265109729843611 / 1125899906842624)"
  "fl (108086391056891949 / 36028797018963968) = Num (6755399441055747 / 2251799813685248)"
  "fl (111689270758788349 / 36028797018963968) = Num (436286213901517 / 140737488355328)"
  "fl (115292150460684749 / 36028797018963968) = Num (7205759403792797 / 2251799813685248)"
  "fl (118895030162581149 / 36028797018963968) = Num (3715469692580661 / 1125899906842624)"
  "fl (122497909864477549 / 36028797018963968) = Num (7656119366529847 / 2251799813685248)"
  "fl (126100789566373949 / 36028797018963968) = Num (1970324836974593 / 562949953421312)"
  "fl (129703669268270349 / 36028797018963968) = Num (8106479329266897 / 2251799813685248)"
  "fl (133306548970166749 / 36028797018963968) = Num (4165829655317711 / 1125899906842624)"
  "fl (136909428672063149 / 36028797018963968) = Num (8556839292003947 / 2251799813685248)"
  "fl (140512308373959549 / 36028797018963968) = Num (1097752409171559 / 281474976710656)"
  "fl (144115188075855949 / 36028797018963968) = Num (2251799813685249 / 562949953421312)"
  "fl (147718067777752333 / 36028797018963968) = Num (577023702256845 / 140737488355328)"
  "fl (151320947479648717 / 36028797018963968) = Num (2364389804369511 / 562949953421312)"
  "fl (154923827181545101 / 36028797018963968) = Num (1210342399855821 / 281474976710656)"
  "fl (158526706883441485 / 36028797018963968) = Num (2476979795053773 / 562949953421312)"
  "fl (162129586585337869 / 36028797018963968) = Num (9 / 2)"
  "fl (165732466287234253 / 36028797018963968) = Num (2589569785738035 / 562949953421312)"
  "fl (169335345989130637 / 36028797018963968) = Num (1322932390540083 / 281474976710656)"
  "fl (172938225691027021 / 36028797018963968) = Num (2702159776422297 / 562949953421312)"
  "fl (176541105392923405 / 36028797018963968) = Num (689613692941107 / 140737488355328)"
  "fl (180143985094819789 / 36028797018963968) = Num (2814749767106559 / 562949953421312)"
  "fl (2814749767106559 / 28147497671065600) = Num (7205759403792791 / 72057594037927936)"
proof -
  show "fl (3602879701896397 / 36028797018963968) = Num (3602879701896397 / 36028797018963968)"
    by (rule fl_in_binade[where e = "- 4" and m = 7205759403792794]) (simp_all add: round_even_def)
  show "fl (3602879701896397 / 18014398509481984) = Num (3602879701896397 / 18014398509481984)"
    by (rule fl_in_binade[where e = "- 3" and m = 7205759403792794]) (simp_all add: round_even_def)
  show "fl (10808639105689191 / 36028797018963968) = Num (1351079888211149 / 4503599627370496)"
    by (rule fl_in_binade[where e = "- 2" and m = 5404319552844596]) (simp_all add: round_even_def)
  show "fl (14411518807585589 / 36028797018963968) = Num (3602879701896397 / 9007199254740992)"
    by (rule fl_in_binade[where e = "- 2" and m = 7205759403792794]) (simp_all add: round_even_def)
  show "fl (18014398509481985 / 36028797018963968) = Num (1 / 2)"
    by (rule fl_in_binade[where e = "- 1" and m = 4503599627370496]) (simp_all add: round_even_def)
  show "fl (21617278211378381 / 36028797018963968) = Num (5404319552844595 / 9007199254740992)"
    by (rule fl_in_binade[where e = "- 1" and m = 5404319552844595]) (simp_all add: round_even_def)
  show "fl (25220157913274777 / 36028797018963968) = Num (3152519739159347 / 4503599627370496)"
    by (rule fl_in_binade[where e = "- 1" and m = 6305039478318694]) (simp_all add: round_even_def)
  show "fl (28823037615171173 / 36028797018963968) = Num (7205759403792793 / 9007199254740992)"
    by (rule fl_in_binade[where e = "- 1" and m = 7205759403792793]) (simp_all add: round_even_def)
  show "fl (32425917317067569 / 36028797018963968) = Num (2026619832316723 / 2251799813685248)"
    by (rule fl_in_binade[where e = "- 1" and m = 8106479329266892]) (simp_all add: round_even_def)
  show "fl (36028797018963965 / 36028797018963968) = Num (9007199254740991 / 9007199254740992)"
    by (rule fl_in_binade[where e = "- 1" and m = 9007199254740991]) (simp_all add: round_even_def)
  show "fl (39631676720860361 / 36028797018963968) = Num (4953959590107545 / 4503599627370496)"
    by (rule fl_in_binade[where e = 0 and m = 4953959590107545]) (simp_all add: round_even_def)
  show "fl (43234556422756757 / 36028797018963968) = Num (5404319552844595 / 4503599627370496)"
    by (rule fl_in_binade[where e = 0 and m = 5404319552844595]) (simp_all add: round_even_def)
  show "fl (46837436124653157 / 36028797018963968) = Num (5854679515581645 / 4503599627370496)"
    by (rule fl_in_binade[where e = 0 and m = 5854679515581645]) (simp_all add: round_even_def)
  show "fl (50440315826549557 / 36028797018963968) = Num (6305039478318695 / 4503599627370496)"
    by (rule fl_in_binade[where e = 0 and m = 6305039478318695]) (simp_all add: round_even_def)
  show "fl (54043195528445957 / 36028797018963968) = Num (6755399441055745 / 4503599627370496)"
    by (rule fl_in_binade[where e = 0 and m = 6755399441055745]) (simp_all add: round_even_def)
  show "fl (57646075230342357 / 36028797018963968) = Num (7205759403792795 / 4503599627370496)"
    by (rule fl_in_binade[where e = 0 and m = 7205759403792795]) (simp_all add: round_even_def)
  show "fl (61248954932238757 / 36028797018963968) = Num (7656119366529845 / 4503599627370496)"
    by (rule fl_in_binade[where e = 0 and m = 7656119366529845]) (simp_all add: round_even_def)
  show "fl (64851834634135157 / 36028797018963968) = Num (8106479329266895 / 4503599627370496)"
    by (rule fl_in_binade[where e = 0 and m = 8106479329266895]) (simp_all add: round_even_def)
  show "fl (68454714336031557 / 36028797018963968) = Num (8556839292003945 / 4503599627370496)"
    by (rule fl_in_binade[where e = 0 and m = 8556839292003945]) (simp_all add: round_even_def)
  show "fl (72057594037927957 / 36028797018963968) = Num (4503599627370497 / 2251799813685248)"
    by (rule fl_in_binade[where e = 1 and m = 4503599627370497]) (simp_all add: round_even_def)
  show "fl (75660473739824349 / 36028797018963968) = Num (2364389804369511 / 1125899906842624)"
    by (rule fl_in_binade[where e = 1 and m = 4728779608739022]) (simp_all add: round_even_def)
  show "fl (79263353441720749 / 36028797018963968) = Num (4953959590107547 / 2251799813685248)"
    by (rule fl_in_binade[where e = 1 and m = 4953959590107547]) (simp_all add: round_even_def)
  show "fl (82866233143617149 / 36028797018963968) = Num (647392446434509 / 281474976710656)"
    by (rule fl_in_binade[where e = 1 and m = 5179139571476072]) (simp_all add: round_even_def)
  show "fl (86469112845513549 / 36028797018963968) = Num (5404319552844597 / 2251799813685248)"
    by (rule fl_in_binade[where e = 1 and m = 5404319552844597]) (simp_all add: round_even_def)
  show "fl (90071992547409949 / 36028797018963968) = Num (2814749767106561 / 1125899906842624)"
    by (rule fl_in_binade[where e = 1 and m = 5629499534213122]) (simp_all add: round_even_def)
  show "fl (93674872249306349 / 36028797018963968) = Num (5854679515581647 / 2251799813685248)"
    by (rule fl_in_binade[where e = 1 and m = 5854679515581647]) (simp_all add: round_even_def)
  show "fl (97277751951202749 / 36028797018963968) = Num (1519964874237543 / 562949953421312)"
    by (rule fl_in_binade[where e = 1 and m = 6079859496950172]) (simp_all add: round_even_def)
  show "fl (100880631653099149 / 36028797018963968) = Num (6305039478318697 / 2251799813685248)"
    by (rule fl_in_binade[where e = 1 and m = 6305039478318697]) (simp_all add: round_even_def)
  show "fl (104483511354995549 / 36028797018963968) = Num (3265109729843611 / 1125899906842624)"
    by (rule fl_in_binade[where e = 1 and m = 6530219459687222]) (simp_all add: round_even_def)
  show "fl (108086391056891949 / 36028797018963968) = Num (6755399441055747 / 2251799813685248)"
    by (rule fl_in_binade[where e = 1 and m = 6755399441055747]) (simp_all add: round_even_def)
  show "fl (111689270758788349 / 36028797018963968) = Num (436286213901517 / 140737488355328)"
    by (rule fl_in_binade[where e = 1 and m = 6980579422424272]) (simp_all add: round_even_def)
  show "fl (115292150460684749 / 36028797018963968) = Num (7205759403792797 / 2251799813685248)"
    by (rule fl_in_binade[where e = 1 and m = 7205759403792797]) (simp_all add: round_even_def)
  show "fl (118895030162581149 / 36028797018963968) = Num (3715469692580661 / 1125899906842624)"
    by (rule fl_in_binade[where e = 1 and m = 7430939385161322]) (simp_all add: round_even_def)
  show "fl (122497909864477549 / 36028797018963968) = Num (7656119366529847 / 2251799813685248)"
    by (rule fl_in_binade[where e = 1 and m = 7656119366529847]) (simp_all add: round_even_def)
  show "fl (126100789566373949 / 36028797018963968) = Num (1970324836974593 / 562949953421312)"
    by (rule fl_in_binade[where e = 1 and m = 7881299347898372]) (simp_all add: round_even_def)
  show "fl (129703669268270349 / 36028797018963968) = Num (8106479329266897 / 2251799813685248)"
    by (rule fl_in_binade[where e = 1 and m = 8106479329266897]) (simp_all add: round_even_def)
  show "fl (133306548970166749 / 36028797018963968) = Num (4165829655317711 / 1125899906842624)"
    by (rule fl_in_binade[where e = 1 and m = 8331659310635422]) (simp_all add: round_even_def)
  show "fl (136909428672063149 / 36028797018963968) = Num (8556839292003947 / 2251799813685248)"
    by (rule fl_in_binade[where e = 1 and m = 8556839292003947]) (simp_all add: round_even_def)
  show "fl (140512308373959549 / 36028797018963968) = Num (1097752409171559 / 281474976710656)"
    by (rule fl_in_binade[where e = 1 and m = 8782019273372472]) (simp_all add: round_even_def)
  show "fl (144115188075855949 / 36028797018963968) = Num (2251799813685249 / 562949953421312)"
    by (rule fl_in_binade[where e = 2 and m = 4503599627370498]) (simp_all add: round_even_def)
  show "fl (147718067777752333 / 36028797018963968) = Num (577023702256845 / 140737488355328)"
    by (rule fl_in_binade[where e = 2 and m = 4616189618054760]) (simp_all add: round_even_def)
  show "fl (151320947479648717 / 36028797018963968) = Num (2364389804369511 / 562949953421312)"
    by (rule fl_in_binade[where e = 2 and m = 4728779608739022]) (simp_all add: round_even_def)
  show "fl (154923827181545101 / 36028797018963968) = Num (1210342399855821 / 281474976710656)"
    by (rule fl_in_binade[where e = 2 and m = 4841369599423284]) (simp_all add: round_even_def)
  show "fl (158526706883441485 / 36028797018963968) = Num (2476979795053773 / 562949953421312)"
    by (rule fl_in_binade[where e = 2 and m = 4953959590107546]) (simp_all add: round_even_def)
  show "fl (162129586585337869 / 36028797018963968) = Num (9 / 2)"
    by (rule fl_in_binade[where e = 2 and m = 5066549580791808]) (simp_all add: round_even_def)
  show "fl (165732466287234253 / 36028797018963968) = Num (2589569785738035 / 562949953421312)"
    by (rule fl_in_binade[where e = 2 and m = 5179139571476070]) (simp_all add: round_even_def)
  show "fl (169335345989130637 / 36028797018963968) = Num (1322932390540083 / 281474976710656)"
    by (rule fl_in_binade[where e = 2 and m = 5291729562160332]) (simp_all add: round_even_def)
  show "fl (172938225691027021 / 36028797018963968) = Num (2702159776422297 / 562949953421312)"
    by (rule fl_in_binade[where e = 2 and m = 5404319552844594]) (simp_all add: round_even_def)
  show "fl (176541105392923405 / 36028797018963968) = Num (689613692941107 / 140737488355328)"
    by (rule fl_in_binade[where e = 2 and m = 5516909543528856]) (simp_all add: round_even_def)
  show "fl (180143985094819789 / 36028797018963968) = Num (2814749767106559 / 562949953421312)"
    by (rule fl_in_binade[where e = 2 and m = 5629499534213118]) (simp_all add: round_even_def)
  show "fl (2814749767106559 / 28147497671065600) = Num (7205759403792791 / 72057594037927936)"
    by (rule fl_in_binade[where e = "- 4" and m = 7205759403792791]) (simp_all add: round_even_def)
qed

lemma tenth_fifty_times:
  "calculateSMA (Some (replicate 50 d0_1)) 50 = [Num (7205759403792791 / 72057594037927936)]"
  by (simp add: calculateSMA_def elem_def d0_1_def tenth_steps)

text \<open>
  Claim C1, as stated: the value at index \<open>k\<close> is the arithmetic mean of the window.
  The loop adds and divides binary64 numbers, and each operation rounds. Fifty prices of
  \<open>0.1\<close> give \<open>0.09999999999999996\<close>; the prices \<open>1, 1, 2\<close> give the
  binary64 value next to \<open>4/3\<close>; \<open>1e16, 1, -1e16\<close> give \<open>0\<close>, the
  \<open>1\<close> being lost when it is added to \<open>-1e16\<close>; two prices of
  \<open>1e308\<close> give \<open>Infinity\<close>. All these prices are binary64 values.
\<close>

theorem rounded_mean_counterexample:
  "calculateSMA (Some (replicate 50 d0_1)) 50 ! 0 = Num (7205759403792791 / 72057594037927936)
   \<and> window_mean (replicate 50 d0_1) 50 0 = d0_1
   \<and> d0_1 \<noteq> 7205759403792791 / 72057594037927936
   \<and> calculateSMA (Some [1, 1, 2]) 3 ! 0 = Num (6004799503160661 / 4503599627370496)
   \<and> window_mean [1, 1, 2] 3 0 = 4 / 3
   \<and> calculateSMA (Some [10000000000000000, 1, - 10000000000000000]) 3 ! 0 = Num 0
   \<and> window_mean [10000000000000000, 1, - 10000000000000000] 3 0 = 1 / 3
   \<and> calculateSMA (Some [10000000000000000, 1, - 10000000000000000]) 3 ! 0
       \<noteq> Num (window_mean [10000000000000000, 1, - 10000000000000000] 3 0)
   \<and> calculateSMA (Some [d1e308, d1e308]) 2 ! 0 = PosInf
   \<and> window_mean [d1e308, d1e308] 2 0 = d1e308
   \<and> representable d0_1 \<and> representable 1 \<and> representable 2 \<and> representable 10000000000000000
   \<and> representable (- 10000000000000000) \<and> representable d1e308"
proof -
  have r: "fl 1 = Num 1" "fl 2 = Num 2" "fl 3 = Num 3" "fl 4 = Num 4"
    using small_representable by (simp_all add: representable_def)
  have a: "calculateSMA (Some [1, 1, 2]) 3 ! 0 = Num (6004799503160661 / 4503599627370496)"
    by (simp add: calculateSMA_def elem_def r fl_four_thirds)
  have b: "calculateSMA (Some [10000000000000000, 1, - 10000000000000000]) 3 ! 0 = Num 0"
    by (simp add: calculateSMA_def elem_def fl_1e16 fl_zero)
  have d: "fl d1e308 = Num d1e308" using representable_d1e308 by (simp add: representable_def)
  have c: "calculateSMA (Some [d1e308, d1e308]) 2 ! 0 = PosInf"
    by (simp add: calculateSMA_def elem_def d fl_d1e308_twice)
  have t: "calculateSMA (Some (replicate 50 d0_1)) 50 ! 0
      = Num (7205759403792791 / 72057594037927936)"
    by (simp only: tenth_fifty_times nth_Cons_0)
  have u: "window_mean (replicate 50 d0_1) 50 0 = d0_1"
    "d0_1 \<noteq> 7205759403792791 / 72057594037927936"
    by (simp_all add: window_mean_def sum_list_replicate d0_1_def)
  have m: "window_mean [1, 1, 2] 3 0 = 4 / 3"
    "window_mean [10000000000000000, 1, - 10000000000000000] 3 0 = 1 / 3"
    "window_mean [d1e308, d1e308] 2 0 = d1e308"
    by (simp_all add: window_mean_def)
  from t u a b c m representable_d0_1 small_representable(1,2) representable_1e16
    representable_d1e308
  show ?thesis by simp
qed

text \<open>
  Claim C1, amended. For a period of at least 1 and a price sequence at least that long,
  \<open>calculateSMA\<close> returns \<open>length s - period + 1\<close> values, in the order of
  increasing \<open>k\<close>. The value at index \<open>k\<close> is the rounded quotient by the period
  of the sum of the \<open>period\<close> prices from index \<open>k\<close> on, added one by one from
  the last to the first with every sum rounded. It is the arithmetic mean of the window
  when none of these operations rounds.
\<close>

theorem calculateSMA_window_sums:
  assumes "1 \<le> period" and "period \<le> int (length s)"
  shows "length (calculateSMA (Some s) period) = length s - nat period + 1 \<and>
         (\<forall>k < length s - nat period + 1.
            calculateSMA (Some s) period ! k = js_div (window_total s (nat period) k) period \<and>
            (exact_window s (nat period) k \<longrightarrow>
               calculateSMA (Some s) period ! k = Num (window_mean s (nat period) k)))"
proof -
  have v: "\<forall>k < length s - nat period + 1.
      calculateSMA (Some s) period ! k = js_div (window_total s (nat period) k) period"
  proof (intro allI impI)
    fix k assume k: "k < length s - nat period + 1"
    then show "calculateSMA (Some s) period ! k = js_div (window_total s (nat period) k) period"
      using nth_map_upt[of k "length s - nat period + 1" 0
          "\<lambda>k. js_div (window_total s (nat period) k) period"]
      by (simp add: calculateSMA_map[OF assms])
  qed
  have p: "int (nat period) = period" "0 < nat period" using assms(1) by simp_all
  have "\<forall>k < length s - nat period + 1. exact_window s (nat period) k \<longrightarrow>
      calculateSMA (Some s) period ! k = Num (window_mean s (nat period) k)"
    using v exact_window_mean[of s "nat period"] p by auto
  with v show ?thesis by (simp add: calculateSMA_map[OF assms])
qed

theorem calculateSMA_window_sums_witness:
  "(1::int) \<le> 2 \<and> (2::int) \<le> int (length [1, 2, 3, 6 :: real]) \<and>
   length (calculateSMA (Some [1, 2, 3, 6]) 2) = 3 \<and>
   exact_window [1, 2, 3, 6] 2 0 \<and> exact_window [1, 2, 3, 6] 2 1 \<and> exact_window [1, 2, 3, 6] 2 2 \<and>
   calculateSMA (Some [1, 2, 3, 6]) 2 ! 0 = Num (3 / 2) \<and>
   calculateSMA (Some [1, 2, 3, 6]) 2 ! 1 = Num (5 / 2) \<and>
   calculateSMA (Some [1, 2, 3, 6]) 2 ! 2 = Num (9 / 2)"
proof -
  have h: "(1::int) \<le> 2" "(2::int) \<le> int (length [1, 2, 3, 6 :: real])" by simp_all
  have e: "exact_window [1, 2, 3, 6] 2 0" "exact_window [1, 2, 3, 6] 2 1"
    "exact_window [1, 2, 3, 6] 2 2"
    by (simp_all add: exact_window_def small_representable)
  have m: "window_mean [1, 2, 3, 6] 2 0 = 3 / 2" "window_mean [1, 2, 3, 6] 2 1 = 5 / 2"
    "window_mean [1, 2, 3, 6] 2 2 = 9 / 2"
    by (simp_all add: window_mean_def)
  note t = calculateSMA_window_sums[OF h]
  from t have l: "length (calculateSMA (Some [1, 2, 3, 6]) 2) = 3" by simp
  from t have v: "\<forall>k<3. exact_window [1, 2, 3, 6] 2 k \<longrightarrow>
          calculateSMA (Some [1, 2, 3, 6]) 2 ! k = Num (window_mean [1, 2, 3, 6] 2 k)"
    by (auto simp: numeral_3_eq_3)
  from v e m have "calculateSMA (Some [1, 2, 3, 6]) 2 ! 0 = Num (3 / 2)"
    "calculateSMA (Some [1, 2, 3, 6]) 2 ! 1 = Num (5 / 2)"
    "calculateSMA (Some [1, 2, 3, 6]) 2 ! 2 = Num (9 / 2)"
    by auto
  with h l e show ?thesis by simp
qed

text \<open>
  Claim C6. When the price sequence is shorter than the period, \<open>calculateSMA\<close>
  returns the empty sequence; it is a value, the function has no error result.
\<close>

theorem calculateSMA_insufficient:
  assumes "1 \<le> period" and "int (length s) < period"
  shows "calculateSMA (Some s) period = []"
  using assms by (simp add: calculateSMA_def)

theorem calculateSMA_insufficient_witness:
  "(1::int) \<le> 50 \<and> int (length [1, 2, 3 :: real]) < 50 \<and> calculateSMA (Some [1, 2, 3]) 50 = []"
  using calculateSMA_insufficient[of 50 "[1, 2, 3]"] by simp

text \<open>
  Claim C10. On an absent price sequence (\<open>null\<close> or \<open>undefined\<close>)
  \<open>calculateSMA\<close> returns the empty sequence, whatever the period.
\<close>

theorem calculateSMA_absent: "calculateSMA None period = []"
  by (simp add: calculateSMA_def)

theorem calculateSMA_absent_witness:
  "calculateSMA None 50 = [] \<and> calculateSMA None 0 = [] \<and> calculateSMA None (- 3) = []"
  using calculateSMA_absent[of 50] calculateSMA_absent[of 0] calculateSMA_absent[of "- 3"]
  by simp

section \<open>Properties of promises and of the orchestrator\<close>

text \<open>\<open>Promise.all\<close>: one rejected input rejects the whole.\<close>

lemma both_rejected_left: "rejected p \<Longrightarrow> rejected (both p q)"
  by (cases "(p, q)" rule: both.cases) auto

lemma both_rejected_right: "rejected q \<Longrightarrow> rejected (both p q)"
  by (cases "(p, q)" rule: both.cases) auto

lemma promise_all_rejected: "p \<in> set ps \<Longrightarrow> rejected p \<Longrightarrow> rejected (promise_all ps)"
  by (induction ps) (auto simp: both_rejected_left both_rejected_right)

text \<open>It fulfils only when every input has, no earlier than any of them.\<close>

lemma both_fulfilled:
  "both p q = Settled t (Inr ws) \<Longrightarrow>
   \<exists>u v u' vs. p = Settled u (Inr v) \<and> q = Settled u' (Inr vs) \<and> ws = v # vs \<and> t = max u u'"
  by (cases "(p, q)" rule: both.cases) (auto split: if_splits)

lemma promise_all_fulfilled:
  "promise_all ps = Settled t (Inr vs) \<Longrightarrow>
   length vs = length ps \<and> (\<forall>i<length ps. \<exists>u. ps ! i = Settled u (Inr (vs ! i)) \<and> u \<le> t)"
proof (induction ps arbitrary: t vs)
  case Nil
  then show ?case by simp
next
  case (Cons p ps)
  from Cons.prems obtain u v u' ws where
    h: "p = Settled u (Inr v)" "promise_all ps = Settled u' (Inr ws)" "vs = v # ws" "t = max u u'"
    using both_fulfilled[of p "promise_all ps" t vs] by auto
  from Cons.IH[OF h(2)] have ih: "length ws = length ps"
    "\<forall>i<length ps. \<exists>u. ps ! i = Settled u (Inr (ws ! i)) \<and> u \<le> u'" by auto
  show ?case
  proof (intro conjI allI impI)
    show "length vs = length (p # ps)" using h ih by simp
  next
    fix i assume "i < length (p # ps)"
    then show "\<exists>u. (p # ps) ! i = Settled u (Inr (vs ! i)) \<and> u \<le> t"
      using h ih by (cases i) (auto intro: le_trans[OF _ max.cobounded2])
  qed
qed



text \<open>\<open>then\<close>: what the result says about the promise and its handler.\<close>

lemma then_p_rejected: "rejected p \<Longrightarrow> rejected (then_p f p)"
  by (cases "(f, p)" rule: then_p.cases) auto

lemma then_p_fulfilled:
  "then_p f p = Settled t (Inr w) \<Longrightarrow>
   \<exists>u v u'. p = Settled u (Inr v) \<and> f v = Settled u' (Inr w) \<and> t = max u u'"
  by (cases "(f, p)" rule: then_p.cases) (auto split: promise.splits)


text \<open>One request: its key, and the error or body it settles with.\<close>

lemma request_key:
  "request net key = Settled t (Inr kb) \<Longrightarrow> fst kb = key"
  unfolding request_def by (auto dest!: then_p_fulfilled simp: resolved_def)

lemma request_rejected_fetch:
  "net key = Settled t (Inl e) \<Longrightarrow> request net key = Settled t (Inl e)"
  by (simp add: request_def)

lemma request_rejected_not_ok:
  "net key = Settled t (Inr res) \<Longrightarrow> \<not> res_ok res \<Longrightarrow>
   request net key = Settled t (Inl (ResponseNotOk key))"
  by (simp add: request_def thrown_def)

lemma request_rejected_body:
  "net key = Settled t (Inr res) \<Longrightarrow> res_ok res \<Longrightarrow> res_json res = Settled u (Inl e) \<Longrightarrow>
   request net key = Settled (max t u) (Inl e)"
  by (simp add: request_def thrown_def)

lemma request_fulfilled:
  "net key = Settled t (Inr res) \<Longrightarrow> res_ok res \<Longrightarrow> res_json res = Settled u (Inr b) \<Longrightarrow>
   request net key = Settled (max t u) (Inr (key, b))"
  by (simp add: request_def resolved_def)

text \<open>The \<open>reduce\<close> stores each body under its key.\<close>

lemma foldl_upd_map_of:
  "foldl (\<lambda>acc (k, d). acc(k \<mapsto> d)) m vs = m ++ map_of (rev vs)"
proof (induction vs arbitrary: m)
  case Nil
  then show ?case by simp
next
  case (Cons x vs)
  obtain k d where x: "x = (k, d)" by (cases x)
  have "foldl (\<lambda>acc (k, d). acc(k \<mapsto> d)) m (x # vs)
      = foldl (\<lambda>acc (k, d). acc(k \<mapsto> d)) (m(k \<mapsto> d)) vs"
    using x by simp
  also have "\<dots> = m(k \<mapsto> d) ++ map_of (rev vs)" by (rule Cons.IH)
  also have "\<dots> = (m ++ [k \<mapsto> d]) ++ map_of (rev vs)" by simp
  also have "\<dots> = m ++ ([k \<mapsto> d] ++ map_of (rev vs))" by (simp only: map_add_assoc)
  also have "\<dots> = m ++ map_of (rev (x # vs))" using x by (simp add: map_of_append)
  finally show ?case .
qed

lemma collect_lookup:
  assumes "distinct (map fst vs)" and "(k, b) \<in> set vs"
  shows "collect vs k = Some b"
proof -
  have "distinct (map fst (rev vs))" using assms(1) by (simp add: rev_map[symmetric])
  moreover have "(k, b) \<in> set (rev vs)" using assms(2) by simp
  ultimately have "map_of (rev vs) k = Some b" by (rule map_of_is_SomeI)
  then show ?thesis by (simp add: collect_def foldl_upd_map_of)
qed

lemma endpoint_index: "\<exists>i<length endpoints. endpoints ! i = key"
proof -
  have "key \<in> set endpoints" by (cases key) (simp_all add: endpoints_def)
  then show ?thesis by (auto simp: in_set_conv_nth)
qed

lemma distinct_endpoints: "distinct endpoints"
  by (simp add: endpoints_def)

text \<open>The orchestrator: what a fulfilled and what a rejected result mean.\<close>

lemma promise_all_requests:
  assumes "promise_all (map (request net) endpoints) = Settled t (Inr vs)"
  shows "map fst vs = endpoints"
    and "\<forall>key. \<exists>u b. request net key = Settled u (Inr (key, b)) \<and> u \<le> t \<and> (key, b) \<in> set vs"
proof -
  from promise_all_fulfilled[OF assms] have
    len: "length vs = length endpoints" and
    el: "\<forall>i<length endpoints. \<exists>u. request net (endpoints ! i) = Settled u (Inr (vs ! i)) \<and> u \<le> t"
    by auto
  show "map fst vs = endpoints"
  proof (rule nth_equalityI)
    show "length (map fst vs) = length endpoints" using len by simp
  next
    fix i assume "i < length (map fst vs)"
    then have i: "i < length endpoints" using len by simp
    with el obtain u where "request net (endpoints ! i) = Settled u (Inr (vs ! i))" by blast
    then have "fst (vs ! i) = endpoints ! i" by (rule request_key)
    then show "map fst vs ! i = endpoints ! i" using i len by simp
  qed
  show "\<forall>key. \<exists>u b. request net key = Settled u (Inr (key, b)) \<and> u \<le> t \<and> (key, b) \<in> set vs"
  proof
    fix key
    from endpoint_index obtain i where i: "i < length endpoints" "endpoints ! i = key" by blast
    with el obtain u where u: "request net key = Settled u (Inr (vs ! i))" "u \<le> t" by blast
    from request_key[OF u(1)] have "vs ! i = (key, snd (vs ! i))" by (cases "vs ! i") simp
    moreover have "vs ! i \<in> set vs" using i len by simp
    ultimately show "\<exists>u b. request net key = Settled u (Inr (key, b)) \<and> u \<le> t \<and> (key, b) \<in> set vs"
      using u by metis
  qed
qed

lemma assemble_fulfilled:
  "assemble vs = Settled u (Inr d) \<Longrightarrow>
   u = 0 \<and> d = collect vs \<and> (\<exists>b. d Candles = Some b \<and> rd p_s b = Some ''ok'')"
  by (auto simp: assemble_def Let_def thrown_def resolved_def split: option.splits if_splits)

lemma fetch_fulfilled:
  assumes "fetchAllEndpoints net = Settled t (Inr d)"
  shows "(\<forall>key. \<exists>u b. request net key = Settled u (Inr (key, b)) \<and> u \<le> t \<and> d key = Some b)
       \<and> (\<exists>b. d Candles = Some b \<and> rd p_s b = Some ''ok'')"
proof -
  from assms obtain u vs u' where
    h: "promise_all (map (request net) endpoints) = Settled u (Inr vs)"
       "assemble vs = Settled u' (Inr d)" "t = max u u'"
    unfolding fetchAllEndpoints_def by (blast dest: then_p_fulfilled)
  from assemble_fulfilled[OF h(2)] have
    a: "u' = 0" "d = collect vs" "\<exists>b. d Candles = Some b \<and> rd p_s b = Some ''ok''" by auto
  from promise_all_requests[OF h(1)] have
    k: "map fst vs = endpoints"
    and r: "\<forall>key. \<exists>u' b. request net key = Settled u' (Inr (key, b)) \<and> u' \<le> u \<and> (key, b) \<in> set vs"
    by auto
  have dist: "distinct (map fst vs)" using k distinct_endpoints by simp
  have "\<forall>key. \<exists>u b. request net key = Settled u (Inr (key, b)) \<and> u \<le> t \<and> d key = Some b"
  proof
    fix key
    from r obtain u'' b where
      "request net key = Settled u'' (Inr (key, b))" "u'' \<le> u" "(key, b) \<in> set vs" by blast
    then show "\<exists>u b. request net key = Settled u (Inr (key, b)) \<and> u \<le> t \<and> d key = Some b"
      using collect_lookup[OF dist] a h(3) by auto
  qed
  with a(3) show ?thesis by simp
qed

lemma fetch_rejected:
  assumes "rejected (request net key)"
  shows "rejected (fetchAllEndpoints net)"
proof -
  have "key \<in> set endpoints" by (cases key) (simp_all add: endpoints_def)
  then have "request net key \<in> set (map (request net) endpoints)" by simp
  then have "rejected (promise_all (map (request net) endpoints))"
    using assms by (rule promise_all_rejected)
  then show ?thesis unfolding fetchAllEndpoints_def by (rule then_p_rejected)
qed

lemma rejected_iff: "rejected p \<longleftrightarrow> (\<exists>t e. p = Settled t (Inl e))"
  by (cases p rule: rejected.cases) auto

lemma failed_request: "failed (net key) \<Longrightarrow> rejected (request net key)"
  by (cases "net key" rule: failed.cases)
     (auto simp: request_def thrown_def rejected_iff split: promise.splits sum.splits)

lemma body_of_request:
  "body_of (net key) = Some b \<longleftrightarrow> (\<exists>t. request net key = Settled t (Inr (key, b)))"
  by (cases "net key" rule: body_of.cases)
     (auto simp: request_def thrown_def resolved_def split: promise.splits sum.splits if_splits)

lemma promise_all_total:
  "\<forall>p\<in>set ps. \<exists>u v. p = Settled u (Inr v) \<Longrightarrow> \<exists>t vs. promise_all ps = Settled t (Inr vs)"
  by (induction ps) auto


lemma all_requests_fulfilled:
  assumes "\<forall>key. \<exists>b. body_of (net key) = Some b"
  shows "\<exists>t vs. promise_all (map (request net) endpoints) = Settled t (Inr vs)"
proof (rule promise_all_total, rule ballI)
  fix p assume "p \<in> set (map (request net) endpoints)"
  then obtain key where "p = request net key" by auto
  moreover from assms obtain b where "body_of (net key) = Some b" by blast
  ultimately show "\<exists>u v. p = Settled u (Inr v)" using body_of_request[of net key b] by auto
qed

lemma candles_collected:
  assumes "promise_all (map (request net) endpoints) = Settled t (Inr vs)"
    and "body_of (net key) = Some b"
  shows "collect vs key = Some b"
proof -
  from promise_all_requests[OF assms(1)] have
    k: "map fst vs = endpoints"
    and r: "\<forall>key. \<exists>u b. request net key = Settled u (Inr (key, b)) \<and> u \<le> t \<and> (key, b) \<in> set vs"
    by auto
  from r obtain u b' where b': "request net key = Settled u (Inr (key, b'))" "(key, b') \<in> set vs"
    by blast
  from assms(2) obtain u' where "request net key = Settled u' (Inr (key, b))"
    using body_of_request[of net key b] by auto
  with b' have "b' = b" by simp
  moreover have "distinct (map fst vs)" using k distinct_endpoints by simp
  ultimately show ?thesis using collect_lookup b'(2) by metis
qed

lemma gate_rejects:
  assumes "\<forall>key. \<exists>b. body_of (net key) = Some b"
    and "body_of (net Candles) = Some bc" and "rd p_s bc \<noteq> Some ''ok''"
  shows "\<exists>t. fetchAllEndpoints net = Settled t (Inl CandleStatusNotOk)"
proof -
  from all_requests_fulfilled[OF assms(1)] obtain t vs where
    p: "promise_all (map (request net) endpoints) = Settled t (Inr vs)" by blast
  from candles_collected[OF p assms(2)] have "collect vs Candles = Some bc" .
  then have "assemble vs = Settled 0 (Inl CandleStatusNotOk)"
    using assms(3) by (simp add: assemble_def thrown_def)
  then show ?thesis using p by (simp add: fetchAllEndpoints_def)
qed

lemma gate_passes:
  assumes "\<forall>key. \<exists>b. body_of (net key) = Some b"
    and "body_of (net Candles) = Some bc" and "rd p_s bc = Some ''ok''"
  shows "\<exists>t d. fetchAllEndpoints net = Settled t (Inr d)"
proof -
  from all_requests_fulfilled[OF assms(1)] obtain t vs where
    p: "promise_all (map (request net) endpoints) = Settled t (Inr vs)" by blast
  from candles_collected[OF p assms(2)] have "collect vs Candles = Some bc" .
  then have "assemble vs = Settled 0 (Inr (collect vs))"
    using assms(3) by (simp add: assemble_def resolved_def)
  then show ?thesis using p by (simp add: fetchAllEndpoints_def)
qed



text \<open>On a network where every request succeeds the outcome is decided by the gate.\<close>

lemma fetch_answers:
  "fetchAllEndpoints (answers bodies) =
     (if rd p_s (bodies Candles) = Some ''ok'' then Settled 2 (Inr (data_of bodies))
      else Settled 2 (Inl CandleStatusNotOk))"
proof -
  have r: "\<And>key. request (answers bodies) key = Settled 2 (Inr (key, bodies key))"
    by (simp add: request_def answers_def resolved_def)
  have c: "collect (map (\<lambda>key. (key, bodies key)) endpoints) = data_of bodies"
  proof
    fix k show "collect (map (\<lambda>key. (key, bodies key)) endpoints) k = data_of bodies k"
      by (cases k) (simp_all add: collect_def endpoints_def data_of_def)
  qed
  have "promise_all (map (request (answers bodies)) endpoints)
      = Settled 2 (Inr (map (\<lambda>key. (key, bodies key)) endpoints))"
    by (simp add: r endpoints_def)
  then show ?thesis
    by (simp add: fetchAllEndpoints_def assemble_def c data_of_def resolved_def thrown_def)
qed


text \<open>
  Claim C3. If one of the seven requests fails (the fetch rejects, the status is not a
  success, or the body does not decode), the orchestrator's promise rejects, whatever
  the other six do; and when it fulfils, each of the seven requests has delivered a body
  and the bundle holds that body under the request's key.
\<close>

theorem all_or_nothing:
  "(failed (net key) \<longrightarrow> rejected (fetchAllEndpoints net))
   \<and> (fetchAllEndpoints net' = Settled t (Inr d) \<longrightarrow>
        (\<forall>k. \<exists>b. body_of (net' k) = Some b \<and> d k = Some b))"
proof (intro conjI impI allI)
  assume "failed (net key)"
  then have "rejected (request net key)" by (rule failed_request)
  then show "rejected (fetchAllEndpoints net)" by (rule fetch_rejected)
next
  fix k
  assume "fetchAllEndpoints net' = Settled t (Inr d)"
  from fetch_fulfilled[OF this] obtain u b where
    "request net' k = Settled u (Inr (k, b))" "d k = Some b" by blast
  then show "\<exists>b. body_of (net' k) = Some b \<and> d k = Some b"
    using body_of_request[of net' k b] by blast
qed

theorem all_or_nothing_witness:
  "failed (early_failure Profile) \<and> body_of (early_failure Quote) = Some (sample_body Quote)
   \<and> rejected (fetchAllEndpoints early_failure)
   \<and> fetchAllEndpoints (answers full_body) = Settled 2 (Inr (data_of full_body))
   \<and> (\<forall>k. \<exists>b. body_of (answers full_body k) = Some b \<and> data_of full_body k = Some b)"
proof -
  have f: "failed (early_failure Profile)" by (simp add: early_failure_def)
  have q: "body_of (early_failure Quote) = Some (sample_body Quote)"
    by (simp add: early_failure_def)
  have s: "fetchAllEndpoints (answers full_body) = Settled 2 (Inr (data_of full_body))"
    by (simp add: fetch_answers no_props_def)
  from all_or_nothing[of early_failure Profile "answers full_body" 2 "data_of full_body"] f q s
  show ?thesis by simp
qed

text \<open>
  Claim C4. When all seven requests succeed and the status \<open>s\<close> of the candle body is
  not \<open>ok\<close>, the orchestrator's promise rejects with the candle-data error; and every
  bundle it fulfils with holds a candle body whose status is \<open>ok\<close>.
\<close>

theorem candle_status_gate:
  "((\<forall>k. body_of (net k) \<noteq> None) \<and> body_of (net Candles) = Some candles \<and>
      rd p_s candles \<noteq> Some ''ok'' \<longrightarrow>
        (\<exists>t. fetchAllEndpoints net = Settled t (Inl CandleStatusNotOk)))
   \<and> (fetchAllEndpoints net' = Settled t' (Inr d) \<longrightarrow>
        (\<exists>b. body_of (net' Candles) = Some b \<and> d Candles = Some b \<and> rd p_s b = Some ''ok''))"
proof (intro conjI impI)
  assume a: "(\<forall>k. body_of (net k) \<noteq> None) \<and> body_of (net Candles) = Some candles \<and>
      rd p_s candles \<noteq> Some ''ok''"
  then have "\<forall>key. \<exists>b. body_of (net key) = Some b" by auto
  then show "\<exists>t. fetchAllEndpoints net = Settled t (Inl CandleStatusNotOk)"
    using a by (intro gate_rejects) auto
next
  assume s: "fetchAllEndpoints net' = Settled t' (Inr d)"
  from fetch_fulfilled[OF s] obtain u b c where
    "request net' Candles = Settled u (Inr (Candles, b))" "d Candles = Some b"
    "d Candles = Some c" "rd p_s c = Some ''ok''" by blast
  then show "\<exists>b. body_of (net' Candles) = Some b \<and> d Candles = Some b \<and> rd p_s b = Some ''ok''"
    using body_of_request[of net' Candles b] by auto
qed

theorem candle_status_gate_witness:
  "(\<forall>k. body_of (answers stale_body k) \<noteq> None)
   \<and> body_of (answers stale_body Candles) = Some (stale_body Candles)
   \<and> rd p_s (stale_body Candles) \<noteq> Some ''ok''
   \<and> (\<exists>t. fetchAllEndpoints (answers stale_body) = Settled t (Inl CandleStatusNotOk))
   \<and> fetchAllEndpoints (answers full_body) = Settled 2 (Inr (data_of full_body))
   \<and> (\<exists>b. body_of (answers full_body Candles) = Some b \<and> data_of full_body Candles = Some b
          \<and> rd p_s b = Some ''ok'')"
proof -
  have a: "\<forall>k. body_of (answers stale_body k) \<noteq> None" by (simp add: answers_def)
  have b: "body_of (answers stale_body Candles) = Some (stale_body Candles)"
    by (simp add: answers_def)
  have c: "rd p_s (stale_body Candles) \<noteq> Some ''ok''" by (simp add: stale_body_def no_props_def)
  have s: "fetchAllEndpoints (answers full_body) = Settled 2 (Inr (data_of full_body))"
    by (simp add: fetch_answers no_props_def)
  from candle_status_gate[of "answers stale_body" "stale_body Candles" "answers full_body" 2
      "data_of full_body"] a b c s
  show ?thesis by simp
qed




section \<open>Properties of the point sequences\<close>

text \<open>A \<open>map\<close> whose callback never throws.\<close>

lemma traverse_total:
  "\<forall>x\<in>set xs. f x = Inr (g x) \<Longrightarrow> traverse f xs = Inr (map g xs)"
  by (induction xs) auto

lemma indexed_nth: "i < length xs \<Longrightarrow> indexed xs ! i = (xs ! i, int i)"
  by (simp add: indexed_def)

lemma length_indexed: "length (indexed xs) = length xs"
  by (simp add: indexed_def)

lemma sma50PlotData_eq:
  assumes "rd p_t candles = Some ts"
  shows "sma50PlotData vals candles =
    Inr (map (\<lambda>(y, index). \<lparr>l_time = elem ts (index + 49), l_value = y\<rparr>) (indexed vals))"
  unfolding sma50PlotData_def
  by (rule traverse_total) (auto simp: assms)

lemma sma200PlotData_eq:
  assumes "rd p_t candles = Some ts"
  shows "sma200PlotData vals candles =
    Inr (map (\<lambda>(y, index). \<lparr>l_time = elem ts (index + 199), l_value = y\<rparr>) (indexed vals))"
  unfolding sma200PlotData_def
  by (rule traverse_total) (auto simp: assms)

text \<open>
  Claim C2. Given the timestamp array of the candle body, point \<open>k\<close> of the 50-day
  series carries the timestamp at index \<open>k + 50 - 1\<close> and the \<open>k\<close>-th average, and
  point \<open>k\<close> of the 200-day series the timestamp at index \<open>k + 200 - 1\<close>; so the
  first points carry the timestamps at index 49 and 199. (An index beyond the array
  reads as \<open>undefined\<close>.)
\<close>

theorem sma_alignment:
  assumes "rd p_t candles = Some ts"
  shows "\<exists>p50 p200.
           sma50PlotData v50 candles = Inr p50 \<and> length p50 = length v50 \<and>
           (\<forall>k<length v50. l_time (p50 ! k) = elem ts (int k + 50 - 1) \<and> l_value (p50 ! k) = v50 ! k) \<and>
           sma200PlotData v200 candles = Inr p200 \<and> length p200 = length v200 \<and>
           (\<forall>k<length v200. l_time (p200 ! k) = elem ts (int k + 200 - 1) \<and> l_value (p200 ! k) = v200 ! k)"
  using sma50PlotData_eq[OF assms, of v50] sma200PlotData_eq[OF assms, of v200]
  by (simp add: length_indexed indexed_nth add.commute)

theorem sma_alignment_witness:
  "rd p_t long_candles = Some (map real [0..<201])
   \<and> (\<exists>p50 p200.
         sma50PlotData [Num 7, Num 8] long_candles = Inr p50 \<and> length p50 = 2 \<and>
         l_time (p50 ! 0) = Num 49 \<and> l_value (p50 ! 0) = Num 7 \<and>
         l_time (p50 ! 1) = Num 50 \<and> l_value (p50 ! 1) = Num 8 \<and>
         sma200PlotData [Num 9] long_candles = Inr p200 \<and> length p200 = 1 \<and>
         l_time (p200 ! 0) = Num 199 \<and> l_value (p200 ! 0) = Num 9)"
proof -
  have t: "rd p_t long_candles = Some (map real [0..<201])"
    by (simp add: long_candles_def no_props_def)
  have e: "elem (map real [0..<201]) 49 = Num 49" "elem (map real [0..<201]) 50 = Num 50"
    "elem (map real [0..<201]) 199 = Num 199"
    by (simp_all add: elem_def del: upt_rec_numeral)
  from sma_alignment[OF t, of "[Num 7, Num 8]" "[Num 9]"] obtain p50 p200 where
    p: "sma50PlotData [Num 7, Num 8] long_candles = Inr p50" "length p50 = 2"
       "\<forall>k<2. l_time (p50 ! k) = elem (map real [0..<201]) (int k + 50 - 1)
              \<and> l_value (p50 ! k) = [Num 7, Num 8] ! k"
       "sma200PlotData [Num 9] long_candles = Inr p200" "length p200 = 1"
       "\<forall>k<1. l_time (p200 ! k) = elem (map real [0..<201]) (int k + 200 - 1)
              \<and> l_value (p200 ! k) = [Num 9] ! k"
    by (auto simp del: upt_rec_numeral)
  from p(3) have "l_time (p50 ! 0) = Num 49 \<and> l_value (p50 ! 0) = Num 7"
    "l_time (p50 ! 1) = Num 50 \<and> l_value (p50 ! 1) = Num 8"
    using e by (auto simp del: upt_rec_numeral)
  moreover from p(6) have "l_time (p200 ! 0) = Num 199 \<and> l_value (p200 ! 0) = Num 9"
    using e by (auto simp del: upt_rec_numeral)
  ultimately show ?thesis using t p(1,2,4,5) by blast
qed

lemma volumeData_eq:
  assumes "rd p_t candles = Some ts" "rd p_v candles = Some vs"
    "rd p_c candles = Some (CArr cs)" "rd p_o candles = Some os"
  shows "volumeData candles =
    Inr (map (\<lambda>(time, index). \<lparr>h_time = Num time, h_value = elem vs index,
          h_color = (if js_gt (elem cs index) (elem os index) then up_color else down_color)\<rparr>)
        (indexed ts))"
  unfolding volumeData_def map_t_def
  by (simp add: assms get_c_def, rule traverse_total) (auto simp: assms get_c_def)

lemma js_gt_elem:
  "js_gt (elem cs (int i)) (elem os (int i)) \<longleftrightarrow> i < length cs \<and> i < length os \<and> cs ! i > os ! i"
  by (auto simp: elem_def)

text \<open>
  Claim C9. Point \<open>i\<close> of the volume series has the up colour exactly when the close
  of bar \<open>i\<close> is greater than its open, and the down colour otherwise, also when the
  two are equal; the two colours differ and there is no third.
\<close>

theorem volume_colors:
  assumes "rd p_t candles = Some ts" "rd p_v candles = Some vs"
    "rd p_c candles = Some (CArr cs)" "rd p_o candles = Some os"
  shows "\<exists>pts. volumeData candles = Inr pts \<and> length pts = length ts \<and>
           (\<forall>i<length ts. h_color (pts ! i) =
               (if i < length cs \<and> i < length os \<and> cs ! i > os ! i then up_color else down_color)) \<and>
           up_color \<noteq> down_color"
  using volumeData_eq[OF assms]
  by (simp add: length_indexed indexed_nth js_gt_elem up_color_def down_color_def)

theorem volume_colors_witness:
  "rd p_t (sample_body Candles) = Some [100, 200, 300]
   \<and> rd p_v (sample_body Candles) = Some [1000, 2000, 3000]
   \<and> rd p_c (sample_body Candles) = Some (CArr [11, 20, 29])
   \<and> rd p_o (sample_body Candles) = Some [10, 20, 30]
   \<and> (\<exists>pts. volumeData (sample_body Candles) = Inr pts \<and> length pts = 3 \<and>
         h_color (pts ! 0) = up_color \<and> h_color (pts ! 1) = down_color \<and>
         h_color (pts ! 2) = down_color \<and> up_color \<noteq> down_color)"
proof -
  have h: "rd p_t (sample_body Candles) = Some [100, 200, 300]"
    "rd p_v (sample_body Candles) = Some [1000, 2000, 3000]"
    "rd p_c (sample_body Candles) = Some (CArr [11, 20, 29])"
    "rd p_o (sample_body Candles) = Some [10, 20, 30]"
    by (simp_all add: no_props_def)
  from volume_colors[OF h] obtain pts where
    p: "volumeData (sample_body Candles) = Inr pts" "length pts = 3"
       "\<forall>i<3. h_color (pts ! i) =
          (if i < 3 \<and> i < 3 \<and> [11, 20, 29 :: real] ! i > [10, 20, 30] ! i
           then up_color else down_color)"
       "up_color \<noteq> down_color"
    by auto
  from p(3) have "h_color (pts ! 0) = up_color" "h_color (pts ! 1) = down_color"
    "h_color (pts ! 2) = down_color"
    by (auto simp: numeral_2_eq_2)
  then show ?thesis using h p(1,2,4) by blast
qed

section \<open>Properties of the coordinator\<close>

lemmas ui_defs = logStatus_def setUiLoading_def toggleDashboardLock_def alert_def
  setupRsiChartLines_def

text \<open>The update functions leave the coordinator's own fields alone.\<close>

lemma seq_control:
  assumes "\<And>a e a'. f a = (e, a') \<Longrightarrow> control a' = control a"
    and "\<And>a e a'. g a = (e, a') \<Longrightarrow> control a' = control a"
  shows "seq f g a = (e, a') \<Longrightarrow> control a' = control a"
  unfolding seq_def
  by (cases "f a") (auto split: option.splits dest!: assms)

lemma updateProfileUI_control: "updateProfileUI p q a = (e, a') \<Longrightarrow> control a' = control a"
  by (auto simp: updateProfileUI_def control_def split: option.splits)

lemma updateMetricsUI_control: "updateMetricsUI p q a = (e, a') \<Longrightarrow> control a' = control a"
  by (auto simp: updateMetricsUI_def control_def split: sum.splits)

lemma updateNewsUI_control: "updateNewsUI p a = (e, a') \<Longrightarrow> control a' = control a"
  by (auto simp: updateNewsUI_def control_def split: option.splits body.splits)

lemma updateChartsUI_control: "updateChartsUI d x y a = (e, a') \<Longrightarrow> control a' = control a"
  by (auto simp: updateChartsUI_def control_def Let_def split: sum.splits prod.splits)

lemma process_control: "process d a = (e, a') \<Longrightarrow> control a' = control a"
  unfolding process_def
  apply (erule seq_control[rotated 2])
   apply (auto simp: control_def ui_defs)[1]
  apply (erule seq_control[rotated 2])
   apply (erule updateProfileUI_control)
  apply (erule seq_control[rotated 2])
   apply (erule updateMetricsUI_control)
  apply (erule seq_control[rotated 2])
   apply (erule updateNewsUI_control)
  apply (erule seq_control[rotated 2])
   apply (auto simp: control_def ui_defs split: option.splits dest: updateChartsUI_control)
  done

lemma attempt_control: "attempt r a = (e, a') \<Longrightarrow> control a' = control a"
  by (cases r) (auto simp: attempt_def dest: process_control)

lemma resume_fields:
  "isLoading (resume r a) = False \<and> awaiting (resume r a) = awaiting a
   \<and> apiKey (resume r a) = apiKey a \<and> issued (resume r a) = issued a"
proof -
  obtain e a' where at: "attempt r a = (e, a')" by (cases "attempt r a")
  from attempt_control[OF at] show ?thesis
    using at by (cases e) (auto simp: resume_def control_def ui_defs)
qed

text \<open>Every step keeps the loading flag and the suspended call in step.\<close>

lemma fetchAndDisplayDashboard_guarded: "guarded a \<Longrightarrow> guarded (fetchAndDisplayDashboard a)"
  by (auto simp: guarded_def fetchAndDisplayDashboard_def ui_defs Let_def)

lemma step_guarded: "guarded a \<Longrightarrow> guarded (step ev a)"
proof (cases ev)
  case LoadClicked
  assume "guarded a" then show ?thesis using LoadClicked by (simp add: fetchAndDisplayDashboard_guarded)
next
  case SaveKeyClicked
  assume g: "guarded a"
  show ?thesis
  proof (cases "trim (apiKeyInput a) = []")
    case True
    then show ?thesis using g SaveKeyClicked
      by (auto simp: handleKeySubmission_def guarded_def ui_defs Let_def)
  next
    case False
    let ?b = "toggleDashboardLock False (logStatus ''API Key saved successfully.'' ''success''
                (a\<lparr>apiKey := Some (trim (apiKeyInput a)), localStorage := Some (trim (apiKeyInput a))\<rparr>))"
    have "guarded ?b" using g False by (auto simp: guarded_def ui_defs falsy_def)
    then have "guarded (fetchAndDisplayDashboard ?b)" by (rule fetchAndDisplayDashboard_guarded)
    then show ?thesis using False SaveKeyClicked by (simp add: handleKeySubmission_def Let_def)
  qed
next
  case (TickerTyped x)
  assume "guarded a" then show ?thesis using TickerTyped by (simp add: guarded_def)
next
  case (ApiKeyTyped x)
  assume "guarded a" then show ?thesis using ApiKeyTyped by (simp add: guarded_def)
next
  case (FetchSettled net)
  assume g: "guarded a"
  show ?thesis
  proof (cases "awaiting a = 0")
    case True
    then show ?thesis using g FetchSettled by simp
  next
    case False
    then have one: "awaiting a = 1" using g by (auto simp: guarded_def split: if_splits)
    show ?thesis
    proof (cases "fetchAllEndpoints net")
      case Pending
      then show ?thesis using g FetchSettled False by simp
    next
      case (Settled t r)
      then show ?thesis using FetchSettled False one resume_fields[of r a]
        by (simp add: guarded_def)
    qed
  qed
qed

lemma run_guarded: "guarded a \<Longrightarrow> guarded (run evs a)"
  by (induction evs arbitrary: a) (auto simp: step_guarded)

lemma page_load_guarded: "guarded (page_load page)"
proof -
  let ?p = "page\<lparr>apiKey := None, currentTicker := ''AAPL'', isLoading := False,
             candlestick := [], volume := [], sma50 := [], sma200 := [], rsi := [],
             macdLine := [], macdSignal := [], macdHist := [],
             fitted := 0, priceLines := [], issued := [], awaiting := 0\<rparr>"
  let ?q = "setupRsiChartLines (logStatus ''Application initializing. Please provide an API key.'' ''info'' ?p)"
  have q: "guarded ?q" by (simp add: guarded_def ui_defs)
  have "guarded (handleApiKey ?q)"
  proof (cases "localStorage ?q")
    case None
    then show ?thesis using q by (simp add: handleApiKey_def guarded_def ui_defs)
  next
    case (Some k)
    show ?thesis
    proof (cases "k = []")
      case True
      then show ?thesis using q Some by (simp add: handleApiKey_def guarded_def ui_defs)
    next
      case False
      let ?b = "toggleDashboardLock False (logStatus ''API Key found in browser memory.'' ''success''
                    (?q\<lparr>apiKey := Some k, apiKeyInput := k\<rparr>))"
      have "guarded ?b" using q False by (simp add: guarded_def ui_defs falsy_def)
      then have "guarded (fetchAndDisplayDashboard ?b)" by (rule fetchAndDisplayDashboard_guarded)
      then show ?thesis using Some False by (simp add: handleApiKey_def)
    qed
  qed
  then show ?thesis by (simp add: page_load_def initialize_def)
qed

text \<open>
  Claim C7. A call of \<open>fetchAndDisplayDashboard\<close> while the loading flag is set starts
  no cycle, issues no request and leaves the suspended cycle and the flag as they are; in
  every state the page can reach the call changes nothing at all, and at most one cycle
  is in flight.
\<close>

theorem reentrancy_guard:
  "(isLoading a \<longrightarrow>
      awaiting (fetchAndDisplayDashboard a) = awaiting a \<and>
      issued (fetchAndDisplayDashboard a) = issued a \<and>
      isLoading (fetchAndDisplayDashboard a))
   \<and> (isLoading (run evs (page_load page)) \<longrightarrow>
        fetchAndDisplayDashboard (run evs (page_load page)) = run evs (page_load page))
   \<and> awaiting (run evs (page_load page)) \<le> 1"
proof -
  have g: "guarded (run evs (page_load page))" by (rule run_guarded[OF page_load_guarded])
  have 1: "isLoading a \<longrightarrow>
      awaiting (fetchAndDisplayDashboard a) = awaiting a \<and>
      issued (fetchAndDisplayDashboard a) = issued a \<and>
      isLoading (fetchAndDisplayDashboard a)"
    by (simp add: fetchAndDisplayDashboard_def ui_defs)
  have 2: "isLoading (run evs (page_load page)) \<longrightarrow>
        fetchAndDisplayDashboard (run evs (page_load page)) = run evs (page_load page)"
    using g by (simp add: guarded_def fetchAndDisplayDashboard_def)
  have 3: "awaiting (run evs (page_load page)) \<le> 1" using g by (simp add: guarded_def)
  from 1 2 3 show ?thesis by blast
qed

lemmas load_defs = page_load_def initialize_def handleApiKey_def blank_page_def
  fetchAndDisplayDashboard_def falsy_def toUpperCase_def upper_def endpoints_def

theorem reentrancy_guard_witness:
  "isLoading (page_load blank_page) \<and> awaiting (page_load blank_page) = 1
   \<and> length (issued (page_load blank_page)) = 7
   \<and> awaiting (fetchAndDisplayDashboard (page_load blank_page)) = awaiting (page_load blank_page)
   \<and> issued (fetchAndDisplayDashboard (page_load blank_page)) = issued (page_load blank_page)
   \<and> fetchAndDisplayDashboard (page_load blank_page) = page_load blank_page
   \<and> awaiting (run [LoadClicked, SaveKeyClicked, LoadClicked] (page_load blank_page)) \<le> 1"
proof -
  have l: "isLoading (page_load blank_page)" "awaiting (page_load blank_page) = 1"
    "length (issued (page_load blank_page)) = 7"
    by (simp_all add: load_defs ui_defs Let_def)
  from reentrancy_guard[of "page_load blank_page" "[]" blank_page] l(1)
  have "awaiting (fetchAndDisplayDashboard (page_load blank_page)) = awaiting (page_load blank_page)"
    "issued (fetchAndDisplayDashboard (page_load blank_page)) = issued (page_load blank_page)"
    "fetchAndDisplayDashboard (page_load blank_page) = page_load blank_page"
    by simp_all
  moreover from reentrancy_guard[of "page_load blank_page"
      "[LoadClicked, SaveKeyClicked, LoadClicked]" blank_page]
  have "awaiting (run [LoadClicked, SaveKeyClicked, LoadClicked] (page_load blank_page)) \<le> 1"
    by blast
  ultimately show ?thesis using l by blast
qed








end
